theory Spec2Isabelle
  imports Complex_Main
begin

section \<open>Python values and dictionaries\<close>

text \<open>
  An idea is a Python \<open>dict\<close> with string keys, loaded from or written to JSON.  A value
  is one of the JSON-shaped Python values.  Text is a list of characters, one per code point;
  numbers are Python's unbounded integers (a score, a count), and a JSON number with a
  fraction is outside the model.  Nested objects are kept as association lists, looked up
  with \<open>map_of\<close>.
\<close>

datatype pyval =
    PNone
  | PBool bool
  | PInt int
  | PStr string
  | PList "pyval list"
  | PDict "(string \<times> pyval) list"

type_synonym pydict = "string \<rightharpoonup> pyval"

datatype py_error =
    TypeError | AttributeError | KeyError | ValueError | RuntimeError | JSONDecodeError
  | OverflowError | InterfaceError | IntegrityError | APIError | OperationalError

text \<open>\<open>d.get(k)\<close> and \<open>d.get(k, default)\<close>.\<close>

definition get_none :: "pydict \<Rightarrow> string \<Rightarrow> pyval" where
  "get_none d k = (case d k of None \<Rightarrow> PNone | Some v \<Rightarrow> v)"

definition get_default :: "pydict \<Rightarrow> string \<Rightarrow> pyval \<Rightarrow> pyval" where
  "get_default d k dflt = (case d k of None \<Rightarrow> dflt | Some v \<Rightarrow> v)"

text \<open>Truth value of a Python object, as \<open>if x\<close> and \<open>not x\<close> test it.\<close>

fun truthy :: "pyval \<Rightarrow> bool" where
  "truthy PNone = False"
| "truthy (PBool b) = b"
| "truthy (PInt n) = (n \<noteq> 0)"
| "truthy (PStr s) = (s \<noteq> [])"
| "truthy (PList l) = (l \<noteq> [])"
| "truthy (PDict d) = (d \<noteq> [])"

text \<open>
  Dictionary keys: lists and dicts are unhashable (\<open>TypeError\<close>); \<open>True\<close> and \<open>1\<close>
  (\<open>False\<close> and \<open>0\<close>) are the same key.
\<close>

fun hashable :: "pyval \<Rightarrow> bool" where
  "hashable (PList l) = False"
| "hashable (PDict d) = False"
| "hashable v = True"

fun key_of :: "pyval \<Rightarrow> pyval" where
  "key_of (PBool b) = PInt (if b then 1 else 0)"
| "key_of v = v"

text \<open>\<open>x[:200]\<close>: strings and lists are sliced, everything else raises.\<close>

fun slice200 :: "pyval \<Rightarrow> py_error + pyval" where
  "slice200 (PStr s) = Inr (PStr (take 200 s))"
| "slice200 (PList l) = Inr (PList (take 200 l))"
| "slice200 v = Inl TypeError"

section \<open>Floating-point arithmetic of the similarity test\<close>

text \<open>
  The weighted similarity is computed in Python's binary floating point.  Its operations are
  parameters of the model: the conversion of an integer score, the product, the sum, the
  comparison \<open>>=\<close>, and the two literals \<open>0.7\<close> and \<open>0.3\<close>.
\<close>

record 'f float_ops =
  f_of_int :: "int \<Rightarrow> 'f"
  fmul :: "'f \<Rightarrow> 'f \<Rightarrow> 'f"
  fadd :: "'f \<Rightarrow> 'f \<Rightarrow> 'f"
  fge :: "'f \<Rightarrow> 'f \<Rightarrow> bool"
  f07 :: "'f"
  f03 :: "'f"

text \<open>
  Exact rational arithmetic, an instance used to run the model.  It is not Python's binary
  floating point: there \<open>97 * 0.7 + 57 * 0.3\<close> stays below \<open>0.85 * 100\<close>, while the exact sum
  is 85.  The instance is used only at inputs where the two agree.
\<close>

definition rat_ops :: "rat float_ops" where
  "rat_ops = \<lparr> f_of_int = of_int, fmul = (*), fadd = (+), fge = (\<lambda>a b. b \<le> a),
      f07 = 7 / 10, f03 = 3 / 10 \<rparr>"

section \<open>Deduplication (\<open>IdeaProcessor._deduplicate_ideas\<close>)\<close>

text \<open>
  First loop: \<open>hash_map\<close> is an insertion-ordered dict from fingerprint to idea, kept as the
  list of its items.  An idea enters when its \<open>hash\<close> is truthy and not yet a key.
\<close>

fun hash_loop :: "(pyval \<times> pydict) list \<Rightarrow> pydict list \<Rightarrow> py_error + (pyval \<times> pydict) list" where
  "hash_loop hash_map [] = Inr hash_map"
| "hash_loop hash_map (idea # ideas) =
     (let idea_hash = get_none idea ''hash'' in
      if \<not> truthy idea_hash then hash_loop hash_map ideas
      else if \<not> hashable idea_hash then Inl TypeError
      else if key_of idea_hash \<in> set (map fst hash_map) then hash_loop hash_map ideas
      else hash_loop (hash_map @ [(key_of idea_hash, idea)]) ideas)"

text \<open>
  The similarity of a candidate and an accepted idea.  \<open>ratio\<close> is \<open>fuzz.ratio\<close> of the
  fuzzywuzzy library, a parameter: a score, or an exception for arguments it rejects.
\<close>

definition similarity ::
  "'f float_ops \<Rightarrow> (pyval \<Rightarrow> pyval \<Rightarrow> py_error + int) \<Rightarrow> pydict \<Rightarrow> pydict \<Rightarrow> py_error + 'f" where
  "similarity F ratio idea unique_idea =
     (case ratio (get_default idea ''title'' (PStr [])) (get_default unique_idea ''title'' (PStr [])) of
        Inl e \<Rightarrow> Inl e
      | Inr title_similarity \<Rightarrow>
     (case slice200 (get_default idea ''description'' (PStr [])) of
        Inl e \<Rightarrow> Inl e
      | Inr d1 \<Rightarrow>
     (case slice200 (get_default unique_idea ''description'' (PStr [])) of
        Inl e \<Rightarrow> Inl e
      | Inr d2 \<Rightarrow>
     (case ratio d1 d2 of
        Inl e \<Rightarrow> Inl e
      | Inr desc_similarity \<Rightarrow>
          Inr (fadd F (fmul F (f_of_int F title_similarity) (f07 F))
                      (fmul F (f_of_int F desc_similarity) (f03 F)))))))"

text \<open>The inner loop with its \<open>break\<close>: the value of \<open>is_duplicate\<close> when it ends.\<close>

fun is_duplicate ::
  "'f float_ops \<Rightarrow> (pyval \<Rightarrow> pyval \<Rightarrow> py_error + int) \<Rightarrow> 'f \<Rightarrow> pydict \<Rightarrow> pydict list \<Rightarrow> py_error + bool" where
  "is_duplicate F ratio similarity_threshold idea [] = Inr False"
| "is_duplicate F ratio similarity_threshold idea (unique_idea # rest) =
     (case similarity F ratio idea unique_idea of
        Inl e \<Rightarrow> Inl e
      | Inr s \<Rightarrow>
          if fge F s (fmul F similarity_threshold (f_of_int F 100)) then Inr True
          else is_duplicate F ratio similarity_threshold idea rest)"

text \<open>The outer loop over \<open>hash_deduped\<close>, with \<open>unique_ideas\<close> as its state.\<close>

fun fuzzy_loop ::
  "'f float_ops \<Rightarrow> (pyval \<Rightarrow> pyval \<Rightarrow> py_error + int) \<Rightarrow> 'f \<Rightarrow> pydict list \<Rightarrow> pydict list \<Rightarrow> py_error + pydict list" where
  "fuzzy_loop F ratio similarity_threshold unique_ideas [] = Inr unique_ideas"
| "fuzzy_loop F ratio similarity_threshold unique_ideas (idea # rest) =
     (case is_duplicate F ratio similarity_threshold idea unique_ideas of
        Inl e \<Rightarrow> Inl e
      | Inr dup \<Rightarrow>
          fuzzy_loop F ratio similarity_threshold
            (if dup then unique_ideas else unique_ideas @ [idea]) rest)"

definition deduplicate_ideas ::
  "'f float_ops \<Rightarrow> (pyval \<Rightarrow> pyval \<Rightarrow> py_error + int) \<Rightarrow> 'f \<Rightarrow> pydict list \<Rightarrow> py_error + pydict list" where
  "deduplicate_ideas F ratio similarity_threshold ideas =
     (if ideas = [] then Inr []
      else case hash_loop [] ideas of
        Inl e \<Rightarrow> Inl e
      | Inr hash_map \<Rightarrow> fuzzy_loop F ratio similarity_threshold [] (map snd hash_map))"

text \<open>
  The fuzzy stage as the specification words it: a candidate reaches the threshold against
  an accepted idea when the weighted similarity is at least \<open>similarity_threshold * 100\<close>;
  the scan keeps the accepted ideas in order, drops a candidate that reaches the threshold
  against some accepted idea, and appends it otherwise.
\<close>

definition reaches_threshold ::
  "'f float_ops \<Rightarrow> (pyval \<Rightarrow> pyval \<Rightarrow> py_error + int) \<Rightarrow> 'f \<Rightarrow> pydict \<Rightarrow> pydict \<Rightarrow> bool" where
  "reaches_threshold F ratio similarity_threshold idea unique_idea =
     (case similarity F ratio idea unique_idea of
        Inl e \<Rightarrow> False
      | Inr s \<Rightarrow> fge F s (fmul F similarity_threshold (f_of_int F 100)))"

fun first_seen_scan :: "(pydict \<Rightarrow> pydict \<Rightarrow> bool) \<Rightarrow> pydict list \<Rightarrow> pydict list \<Rightarrow> pydict list" where
  "first_seen_scan dup accepted [] = accepted"
| "first_seen_scan dup accepted (candidate # rest) =
     (if \<exists>u\<in>set accepted. dup candidate u then first_seen_scan dup accepted rest
      else first_seen_scan dup (accepted @ [candidate]) rest)"

text \<open>
  Invariants of the two loops.  \<open>idea_key\<close> is the dictionary key an idea's fingerprint
  makes; \<open>keys_ok\<close> says that the ideas of a list have truthy, hashable fingerprints with
  pairwise different keys; \<open>accepted_chain\<close> says that no idea of a list is a duplicate of
  the ideas before it.
\<close>

definition idea_key :: "pydict \<Rightarrow> pyval" where
  "idea_key idea = key_of (get_none idea ''hash'')"

definition keys_ok :: "pydict list \<Rightarrow> bool" where
  "keys_ok xs = (distinct (map idea_key xs) \<and>
     list_all (\<lambda>i. truthy (get_none i ''hash'') \<and> hashable (get_none i ''hash'')) xs)"

fun accepted_chain ::
  "'f float_ops \<Rightarrow> (pyval \<Rightarrow> pyval \<Rightarrow> py_error + int) \<Rightarrow> 'f \<Rightarrow> pydict list \<Rightarrow> pydict list \<Rightarrow> bool" where
  "accepted_chain F ratio thr before [] = True"
| "accepted_chain F ratio thr before (x # xs) =
     (is_duplicate F ratio thr x before = Inr False \<and> accepted_chain F ratio thr (before @ [x]) xs)"

section \<open>Analysis of one idea (\<open>IdeaProcessor._analyze_idea_with_llm\<close>)\<close>

text \<open>\<open>obj.get(k, default)\<close> on a value: only a dict has the method.\<close>

fun obj_get :: "pyval \<Rightarrow> string \<Rightarrow> pyval \<Rightarrow> py_error + pyval" where
  "obj_get (PDict kvs) k dflt = Inr (case map_of kvs k of None \<Rightarrow> dflt | Some v \<Rightarrow> v)"
| "obj_get v k dflt = Inl AttributeError"










section \<open>Relevance filter (the last loop of \<open>IdeaProcessor.process_ideas\<close>)\<close>

text \<open>\<open>score >= min_score_threshold\<close>: integers and booleans compare, other values raise.\<close>

fun ge_threshold :: "pyval \<Rightarrow> int \<Rightarrow> py_error + bool" where
  "ge_threshold (PInt n) t = Inr (n \<ge> t)"
| "ge_threshold (PBool b) t = Inr ((if b then 1 else 0) \<ge> t)"
| "ge_threshold v t = Inl TypeError"

fun relevant_loop :: "int \<Rightarrow> pydict list \<Rightarrow> pydict list \<Rightarrow> py_error + pydict list" where
  "relevant_loop min_score_threshold relevant_ideas [] = Inr relevant_ideas"
| "relevant_loop min_score_threshold relevant_ideas (idea # all_processed) =
     (case idea ''analysis'' of
        None \<Rightarrow> relevant_loop min_score_threshold relevant_ideas all_processed
      | Some analysis \<Rightarrow>
          (case obj_get analysis ''score'' (PInt 0) of
             Inl e \<Rightarrow> Inl e
           | Inr score \<Rightarrow>
               (case ge_threshold score min_score_threshold of
                  Inl e \<Rightarrow> Inl e
                | Inr b \<Rightarrow>
                    relevant_loop min_score_threshold
                      (if b then relevant_ideas @ [idea] else relevant_ideas) all_processed)))"

definition filter_relevant :: "int \<Rightarrow> pydict list \<Rightarrow> py_error + pydict list" where
  "filter_relevant min_score_threshold all_processed = relevant_loop min_score_threshold [] all_processed"

text \<open>
  The score the filter reads from an idea: \<open>idea["analysis"].get("score", 0)\<close> as an integer,
  when the analysis is an object and the score, if present, is an integer or a boolean.
\<close>

definition score_of :: "pydict \<Rightarrow> int option" where
  "score_of idea =
     (case idea ''analysis'' of
        Some (PDict kvs) \<Rightarrow>
          (case map_of kvs ''score'' of
             None \<Rightarrow> Some 0
           | Some (PInt n) \<Rightarrow> Some n
           | Some (PBool b) \<Rightarrow> Some (if b then 1 else 0)
           | Some _ \<Rightarrow> None)
      | _ \<Rightarrow> None)"

definition analyzed :: "pydict \<Rightarrow> bool" where
  "analyzed idea = (idea ''analysis'' \<noteq> None)"

definition score_at_least :: "int \<Rightarrow> pydict \<Rightarrow> bool" where
  "score_at_least t idea = (case score_of idea of None \<Rightarrow> False | Some n \<Rightarrow> t \<le> n)"

definition score_at_most :: "int \<Rightarrow> pydict \<Rightarrow> bool" where
  "score_at_most t idea = (case score_of idea of None \<Rightarrow> False | Some n \<Rightarrow> n \<le> t)"

section \<open>Normalizer (\<open>normalize_data\<close>)\<close>

text \<open>
  \<open>str(x)\<close>, as an f-string renders a field.  The rendering of a list or a dict is a
  parameter (\<open>repr\<close>).
\<close>

fun dec :: "nat \<Rightarrow> string" where
  "dec n = (if n < 10 then [''0123456789'' ! n] else dec (n div 10) @ [''0123456789'' ! (n mod 10)])"

declare dec.simps [simp del]

fun py_str :: "(pyval \<Rightarrow> string) \<Rightarrow> pyval \<Rightarrow> string" where
  "py_str repr (PStr s) = s"
| "py_str repr PNone = ''None''"
| "py_str repr (PBool b) = (if b then ''True'' else ''False'')"
| "py_str repr (PInt n) = (if n < 0 then CHR ''-'' # dec (nat (- n)) else dec (nat n))"
| "py_str repr v = repr v"

text \<open>The text that is hashed: \<open>f"{data.get('title', '')}{data.get('description', '')}"\<close>.\<close>

definition hash_input :: "(pyval \<Rightarrow> string) \<Rightarrow> pydict \<Rightarrow> string" where
  "hash_input repr data =
     py_str repr (get_default data ''title'' (PStr [])) @
     py_str repr (get_default data ''description'' (PStr []))"

text \<open>
  \<open>md5_hex s\<close> is \<open>hashlib.md5(s.encode()).hexdigest()\<close> and \<open>json_dumps\<close> is \<open>json.dumps\<close>,
  both parameters; \<open>now\<close> is \<open>datetime.now().isoformat()\<close>.
\<close>

definition normalize_data ::
  "(string \<Rightarrow> string) \<Rightarrow> (pydict \<Rightarrow> string) \<Rightarrow> (pyval \<Rightarrow> string) \<Rightarrow> string \<Rightarrow> pydict \<Rightarrow> string \<Rightarrow> pydict" where
  "normalize_data md5_hex json_dumps repr now data source =
     (let content_hash = md5_hex (hash_input repr data) in
      [''title'' \<mapsto> get_default data ''title'' (PStr []),
       ''description'' \<mapsto> get_default data ''description'' (PStr []),
       ''url'' \<mapsto> get_default data ''url'' (PStr []),
       ''source'' \<mapsto> PStr source,
       ''timestamp'' \<mapsto> PStr now,
       ''raw_content'' \<mapsto> PStr (json_dumps data),
       ''hash'' \<mapsto> PStr content_hash])"

section \<open>Storage: the SQLite backend (\<open>DatabaseManager\<close>)\<close>

text \<open>
  Column values of SQLite.  A Python parameter is bound as \<open>NULL\<close>, an integer or a text;
  a list or a dict cannot be bound, and an integer outside 64 bits overflows.  A column
  declared \<open>TEXT\<close> stores an integer as its decimal text.
\<close>

datatype sqlval = SNull | SInt int | SText string

fun bind_param :: "pyval \<Rightarrow> py_error + sqlval" where
  "bind_param PNone = Inr SNull"
| "bind_param (PBool b) = Inr (SInt (if b then 1 else 0))"
| "bind_param (PInt n) =
     (if - (2 ^ 63) \<le> n \<and> n < 2 ^ 63 then Inr (SInt n) else Inl OverflowError)"
| "bind_param (PStr s) = Inr (SText s)"
| "bind_param v = Inl InterfaceError"

fun bind_all :: "pyval list \<Rightarrow> py_error + sqlval list" where
  "bind_all [] = Inr []"
| "bind_all (v # vs) =
     (case bind_param v of
        Inl e \<Rightarrow> Inl e
      | Inr x \<Rightarrow> (case bind_all vs of Inl e \<Rightarrow> Inl e | Inr xs \<Rightarrow> Inr (x # xs)))"

fun text_affinity :: "sqlval \<Rightarrow> sqlval" where
  "text_affinity (SInt n) = SText (if n < 0 then CHR ''-'' # dec (nat (- n)) else dec (nat n))"
| "text_affinity v = v"

text \<open>
  The tables \<open>raw_ideas\<close> and \<open>analyzed_ideas\<close> of \<open>_create_sqlite_tables\<close>: \<open>id INTEGER
  PRIMARY KEY AUTOINCREMENT\<close>, \<open>title TEXT NOT NULL\<close>, \<open>hash TEXT UNIQUE\<close>, \<open>created_at TEXT
  DEFAULT CURRENT_TIMESTAMP\<close>.  A table is the list of its rows in insertion order with the
  counter of \<open>AUTOINCREMENT\<close>.  \<open>created_at\<close>, which no statement of the code sets, is kept
  as a number of seconds, so that the calendar day of a timestamp is its quotient by 86400.
  The tables \<open>users\<close> and \<open>feedback\<close> are not touched by any operation below.
\<close>

record raw_row =
  r_id :: nat
  r_title :: sqlval
  r_description :: sqlval
  r_url :: sqlval
  r_source :: sqlval
  r_timestamp :: sqlval
  r_hash :: sqlval
  r_raw_content :: sqlval
  r_created_at :: int

record analyzed_row =
  a_id :: nat
  a_title :: sqlval
  a_description :: sqlval
  a_url :: sqlval
  a_source :: sqlval
  a_timestamp :: sqlval
  a_hash :: sqlval
  a_analysis :: sqlval
  a_score :: sqlval
  a_tags :: sqlval
  a_difficulty :: sqlval
  a_market_potential :: sqlval
  a_created_at :: int

record sqlite_db =
  raw_ideas :: "raw_row list"
  raw_seq :: nat
  analyzed_ideas :: "analyzed_row list"
  analyzed_seq :: nat

text \<open>
  \<open>INSERT OR IGNORE INTO raw_ideas\<close>: a row that violates \<open>NOT NULL\<close> on the title or
  \<open>UNIQUE\<close> on the hash (two \<open>NULL\<close>s never conflict) is skipped; the result is the new
  database and \<open>cursor.rowcount\<close>.  The \<open>AUTOINCREMENT\<close> counter advances for a skipped row
  too.  \<open>clock\<close> is \<open>CURRENT_TIMESTAMP\<close>.
\<close>

definition insert_or_ignore_raw :: "int \<Rightarrow> sqlval list \<Rightarrow> sqlite_db \<Rightarrow> py_error + sqlite_db \<times> nat" where
  "insert_or_ignore_raw clock params db =
     (case map text_affinity params of
        [title, description, url, source, timestamp, hash, raw_content] \<Rightarrow>
          if title = SNull then Inr (db\<lparr> raw_seq := Suc (raw_seq db) \<rparr>, 0)
          else if hash \<noteq> SNull \<and> hash \<in> set (map r_hash (raw_ideas db))
          then Inr (db\<lparr> raw_seq := Suc (raw_seq db) \<rparr>, 0)
          else Inr (db\<lparr> raw_ideas := raw_ideas db @
                      [\<lparr> r_id = Suc (raw_seq db), r_title = title, r_description = description,
                         r_url = url, r_source = source, r_timestamp = timestamp, r_hash = hash,
                         r_raw_content = raw_content, r_created_at = clock \<rparr>],
                    raw_seq := Suc (raw_seq db) \<rparr>, 1)
      | _ \<Rightarrow> Inl InterfaceError)"

text \<open>
  The parameters of one raw insert.  \<open>raw_content\<close> is first rewritten in the idea when it is
  not a string: \<open>idea["raw_content"]\<close> raises \<open>KeyError\<close> when the key is absent.
\<close>

definition raw_insert_params :: "(pyval \<Rightarrow> string) \<Rightarrow> string \<Rightarrow> pydict \<Rightarrow> py_error + sqlval list" where
  "raw_insert_params json_dumps now_iso idea =
     (case (case idea ''raw_content'' of
              Some (PStr s) \<Rightarrow> Inr idea
            | Some v \<Rightarrow> Inr (idea(''raw_content'' \<mapsto> PStr (json_dumps v)))
            | None \<Rightarrow> Inl KeyError) of
        Inl e \<Rightarrow> Inl e
      | Inr idea' \<Rightarrow>
          bind_all [get_default idea' ''title'' (PStr []),
                    get_default idea' ''description'' (PStr []),
                    get_default idea' ''url'' (PStr []),
                    get_default idea' ''source'' (PStr []),
                    get_default idea' ''timestamp'' (PStr now_iso),
                    get_default idea' ''hash'' (PStr []),
                    get_default idea' ''raw_content'' (PStr ''{}'')])"

text \<open>
  \<open>_store_raw_ideas_sqlite\<close>: the loop with its \<open>try\<close>; an exception of a row is logged and
  the row is not counted.
\<close>

fun store_raw_loop_sqlite ::
  "(pyval \<Rightarrow> string) \<Rightarrow> string \<Rightarrow> int \<Rightarrow> sqlite_db \<Rightarrow> nat \<Rightarrow> pydict list \<Rightarrow> sqlite_db \<times> nat" where
  "store_raw_loop_sqlite json_dumps now_iso clock db count [] = (db, count)"
| "store_raw_loop_sqlite json_dumps now_iso clock db count (idea # ideas) =
     (case raw_insert_params json_dumps now_iso idea of
        Inl e \<Rightarrow> store_raw_loop_sqlite json_dumps now_iso clock db count ideas
      | Inr params \<Rightarrow>
          (case insert_or_ignore_raw clock params db of
             Inl e \<Rightarrow> store_raw_loop_sqlite json_dumps now_iso clock db count ideas
           | Inr (db', rowcount) \<Rightarrow>
               store_raw_loop_sqlite json_dumps now_iso clock db'
                 (if rowcount > 0 then count + 1 else count) ideas))"

definition store_raw_ideas_sqlite ::
  "(pyval \<Rightarrow> string) \<Rightarrow> string \<Rightarrow> int \<Rightarrow> sqlite_db \<Rightarrow> pydict list \<Rightarrow> sqlite_db \<times> nat" where
  "store_raw_ideas_sqlite json_dumps now_iso clock db ideas =
     store_raw_loop_sqlite json_dumps now_iso clock db 0 ideas"






text \<open>
  \<open>_cleanup_old_raw_ideas_sqlite\<close>.  Two clocks meet here.  \<open>created_at\<close> is
  \<open>CURRENT_TIMESTAMP\<close>, the date and time in UTC; \<open>now\<close> is \<open>datetime.now()\<close>, the date and
  time on the machine's local clock, which is ahead of UTC by the machine's offset.  Each is
  kept as the number of seconds its date and time make, so that its calendar day is the
  quotient by 86400.  A \<open>datetime\<close> lies between the years 1 and 9999, and a subtraction
  that leaves this range raises \<open>OverflowError\<close> inside the \<open>try\<close>, which returns 0.  The
  cutoff is formatted as a day (\<open>%Y-%m-%d\<close>) and the statement compares the UTC day of
  creation with the local day of the cutoff: \<open>date(created_at) < date(?)\<close>.
\<close>

text \<open>The UTC time at which a machine \<open>utc_offset\<close> seconds ahead of UTC reads \<open>local\<close>.\<close>

definition utc_of_local :: "int \<Rightarrow> int \<Rightarrow> int" where
  "utc_of_local utc_offset local = local - utc_offset"

definition date_of :: "int \<Rightarrow> int" where
  "date_of t = t div 86400"

definition datetime_min :: int where
  "datetime_min = - 62135596800"

definition datetime_max :: int where
  "datetime_max = 253402300799"

definition cutoff_of :: "int \<Rightarrow> int \<Rightarrow> py_error + int" where
  "cutoff_of now days =
     (let c = now - days * 86400 in
      if datetime_min \<le> c \<and> c \<le> datetime_max then Inr c else Inl OverflowError)"

definition cleanup_old_raw_ideas_sqlite :: "int \<Rightarrow> int \<Rightarrow> sqlite_db \<Rightarrow> sqlite_db \<times> nat" where
  "cleanup_old_raw_ideas_sqlite now days db =
     (case cutoff_of now days of
        Inl e \<Rightarrow> (db, 0)
      | Inr cutoff \<Rightarrow>
          let cutoff_date = date_of cutoff;
              kept = filter (\<lambda>r. \<not> date_of (r_created_at r) < cutoff_date) (raw_ideas db)
          in (db\<lparr> raw_ideas := kept \<rparr>, length (raw_ideas db) - length kept))"


definition stored_hash :: "pydict \<Rightarrow> sqlval" where
  "stored_hash idea =
     (case bind_param (get_default idea ''hash'' (PStr [])) of
        Inl e \<Rightarrow> SNull
      | Inr v \<Rightarrow> text_affinity v)"

section \<open>Storage: the Supabase backend\<close>

text \<open>
  The hosted service is the environment's.  An operation of its client is a parameter of the
  code that calls it: it raises, or it returns the new state of the service and
  \<open>result.data\<close>, the rows it inserted or deleted.
\<close>

text \<open>
  \<open>_store_raw_ideas_supabase\<close>: \<open>raw_content\<close> is decoded when it is a string that parses
  (a \<open>JSONDecodeError\<close> leaves it as it is, any other exception of the decoder is the
  row's), then the idea is sent with a plain \<open>insert\<close>; a row counts when \<open>result.data\<close> is
  not empty, and an exception of the row is logged.
\<close>

definition decode_raw_content :: "(string \<Rightarrow> py_error + pyval) \<Rightarrow> pydict \<Rightarrow> py_error + pydict" where
  "decode_raw_content json_loads idea =
     (case idea ''raw_content'' of
        Some (PStr s) \<Rightarrow>
          (case json_loads s of
             Inl JSONDecodeError \<Rightarrow> Inr idea
           | Inl e \<Rightarrow> Inl e
           | Inr v \<Rightarrow> Inr (idea(''raw_content'' \<mapsto> v)))
      | _ \<Rightarrow> Inr idea)"

fun store_raw_loop_supabase ::
  "(string \<Rightarrow> py_error + pyval) \<Rightarrow> ('h \<Rightarrow> pydict \<Rightarrow> py_error + 'h \<times> pydict list) \<Rightarrow>
   'h \<Rightarrow> nat \<Rightarrow> pydict list \<Rightarrow> 'h \<times> nat" where
  "store_raw_loop_supabase json_loads insert_execute h count [] = (h, count)"
| "store_raw_loop_supabase json_loads insert_execute h count (idea # ideas) =
     (case decode_raw_content json_loads idea of
        Inl e \<Rightarrow> store_raw_loop_supabase json_loads insert_execute h count ideas
      | Inr idea' \<Rightarrow>
          (case insert_execute h idea' of
             Inl e \<Rightarrow> store_raw_loop_supabase json_loads insert_execute h count ideas
           | Inr (h', data) \<Rightarrow>
               store_raw_loop_supabase json_loads insert_execute h'
                 (if data \<noteq> [] then count + 1 else count) ideas))"

definition store_raw_ideas_supabase ::
  "(string \<Rightarrow> py_error + pyval) \<Rightarrow> ('h \<Rightarrow> pydict \<Rightarrow> py_error + 'h \<times> pydict list) \<Rightarrow>
   'h \<Rightarrow> pydict list \<Rightarrow> 'h \<times> nat" where
  "store_raw_ideas_supabase json_loads insert_execute h ideas =
     store_raw_loop_supabase json_loads insert_execute h 0 ideas"

text \<open>
  \<open>_cleanup_old_raw_ideas_supabase\<close>: the cutoff, again from the local clock, is sent with
  its time of day (\<open>isoformat\<close>) in \<open>delete().lt("created_at", cutoff)\<close>, and the count is
  the number of rows the service reports as deleted.  Which rows the service deletes is the
  service's.
\<close>

definition cleanup_old_raw_ideas_supabase ::
  "('h \<Rightarrow> int \<Rightarrow> py_error + 'h \<times> 'r list) \<Rightarrow> int \<Rightarrow> int \<Rightarrow> 'h \<Rightarrow> 'h \<times> nat" where
  "cleanup_old_raw_ideas_supabase delete_lt_execute now days h =
     (case cutoff_of now days of
        Inl e \<Rightarrow> (h, 0)
      | Inr cutoff_date \<Rightarrow>
          (case delete_lt_execute h cutoff_date of
             Inl e \<Rightarrow> (h, 0)
           | Inr (h', data) \<Rightarrow> (h', length data)))"

text \<open>
  A hosted table as \<open>_ensure_supabase_tables\<close> documents it: \<open>id\<close> is the only key, there is
  no constraint on \<open>hash\<close>, and \<open>created_at\<close> is set by the service.  \<open>insert\<close> appends the row
  and returns it.
\<close>

record hosted_row =
  h_id :: nat
  h_fields :: pydict
  h_created_at :: int

definition hosted_insert :: "int \<Rightarrow> hosted_row list \<Rightarrow> pydict \<Rightarrow> py_error + hosted_row list \<times> pydict list" where
  "hosted_insert clock rows idea =
     Inr (rows @ [\<lparr> h_id = Suc (length rows), h_fields = idea, h_created_at = clock \<rparr>], [idea])"

section \<open>Construction of the manager (\<open>DatabaseManager.__init__\<close>)\<close>

text \<open>
  \<open>environ\<close> holds the two credentials; \<open>create_client\<close> is the Supabase client's
  constructor and \<open>connect\<close> is what \<open>_init_sqlite\<close> does (create the directory, open the
  file, create the tables): each raises or yields its handle.  A manager has its \<open>db_type\<close>
  and the handle of the backend that was initialised.
\<close>

record environ =
  SUPABASE_URL :: "string option"
  SUPABASE_KEY :: "string option"

record 'h manager =
  db_type :: pyval
  conn :: "sqlite_db option"
  supabase :: "'h option"

text \<open>\<open>_init_sqlite\<close>: the exception is logged and raised again.\<close>

definition init_sqlite :: "(py_error + sqlite_db) \<Rightarrow> 'h manager \<Rightarrow> py_error + 'h manager" where
  "init_sqlite connect self =
     (case connect of
        Inl e \<Rightarrow> Inl e
      | Inr db \<Rightarrow> Inr (self\<lparr> conn := Some db \<rparr>))"

text \<open>
  \<open>_init_supabase\<close>: a missing or empty credential raises \<open>ValueError\<close> inside the \<open>try\<close>;
  whatever is raised there is caught, \<open>db_type\<close> becomes \<open>sqlite\<close> and \<open>_init_sqlite\<close> runs.
\<close>

definition falsy_env :: "string option \<Rightarrow> bool" where
  "falsy_env v = (case v of None \<Rightarrow> True | Some s \<Rightarrow> s = [])"

definition supabase_client ::
  "environ \<Rightarrow> (string \<Rightarrow> string \<Rightarrow> py_error + 'h) \<Rightarrow> py_error + 'h" where
  "supabase_client env create_client =
     (if falsy_env (SUPABASE_URL env) \<or> falsy_env (SUPABASE_KEY env) then Inl ValueError
      else case (SUPABASE_URL env, SUPABASE_KEY env) of
        (Some supabase_url, Some supabase_key) \<Rightarrow> create_client supabase_url supabase_key
      | _ \<Rightarrow> Inl ValueError)"

definition init_supabase ::
  "environ \<Rightarrow> (string \<Rightarrow> string \<Rightarrow> py_error + 'h) \<Rightarrow> (py_error + sqlite_db) \<Rightarrow> 'h manager \<Rightarrow>
   py_error + 'h manager" where
  "init_supabase env create_client connect self =
     (case supabase_client env create_client of
        Inr client \<Rightarrow> Inr (self\<lparr> supabase := Some client \<rparr>)
      | Inl e \<Rightarrow> init_sqlite connect (self\<lparr> db_type := PStr ''sqlite'' \<rparr>))"

text \<open>\<open>__init__\<close>, with \<open>config\<close> the configuration in force (\<open>config or DB_CONFIG\<close>).\<close>

definition database_manager_init ::
  "pydict \<Rightarrow> environ \<Rightarrow> (string \<Rightarrow> string \<Rightarrow> py_error + 'h) \<Rightarrow> (py_error + sqlite_db) \<Rightarrow>
   py_error + 'h manager" where
  "database_manager_init config env create_client connect =
     (let self = \<lparr> db_type = get_default config ''type'' (PStr ''sqlite''),
                   conn = None, supabase = None \<rparr>
      in if db_type self = PStr ''supabase''
         then init_supabase env create_client connect self
         else init_sqlite connect self)"

section \<open>Concrete inputs\<close>

text \<open>A scoring function to run the model with: equal arguments score 100, others 0.\<close>

definition ex_ratio :: "pyval \<Rightarrow> pyval \<Rightarrow> py_error + int" where
  "ex_ratio a b = Inr (if a = b then 100 else 0)"

definition no_hash_ideas :: "pydict list" where
  "no_hash_ideas =
     [[''title'' \<mapsto> PStr ''a''],
      [''title'' \<mapsto> PStr ''b'', ''hash'' \<mapsto> PNone],
      [''title'' \<mapsto> PStr ''c'', ''hash'' \<mapsto> PStr []]]"

definition mixed_hash_ideas :: "pydict list" where
  "mixed_hash_ideas =
     [[''title'' \<mapsto> PStr ''a''],
      [''title'' \<mapsto> PStr ''b'', ''hash'' \<mapsto> PStr ''h1''],
      [''title'' \<mapsto> PStr ''c'', ''hash'' \<mapsto> PNone]]"

definition idea_a :: pydict where
  "idea_a = [''title'' \<mapsto> PStr ''x'', ''description'' \<mapsto> PStr ''d'', ''hash'' \<mapsto> PStr ''h1'']"

definition idea_b :: pydict where
  "idea_b = [''title'' \<mapsto> PStr ''x'', ''description'' \<mapsto> PStr ''d'', ''hash'' \<mapsto> PStr ''h2'']"

definition idea_c :: pydict where
  "idea_c = [''title'' \<mapsto> PStr ''x'', ''description'' \<mapsto> PStr ''e'', ''hash'' \<mapsto> PStr ''h3'']"

definition idea_d :: pydict where
  "idea_d = [''title'' \<mapsto> PStr ''y'', ''description'' \<mapsto> PStr ''f'', ''hash'' \<mapsto> PStr ''h1'']"

definition scored_90 :: pydict where
  "scored_90 = [''title'' \<mapsto> PStr ''a'', ''analysis'' \<mapsto> PDict [(''score'', PInt 90)]]"

definition scored_40 :: pydict where
  "scored_40 = [''title'' \<mapsto> PStr ''c'', ''analysis'' \<mapsto> PDict [(''score'', PInt 40)]]"

definition scored_150 :: pydict where
  "scored_150 = [''title'' \<mapsto> PStr ''o'', ''analysis'' \<mapsto> PDict [(''score'', PInt 150)]]"

definition unanalyzed :: pydict where
  "unanalyzed = [''title'' \<mapsto> PStr ''b'']"

text \<open>A decoder and a world to run the analyzer with.\<close>

definition ex_loads :: "string \<Rightarrow> py_error + pyval" where
  "ex_loads s = (if s = ''{a}'' then Inr (PDict [(''score'', PInt 90)]) else Inl JSONDecodeError)"





text \<open>
  Raw records for the normalizer, and stand-ins for the digest and the serializer.  The
  stand-in digest is the identity, which never maps two texts to one digest.
\<close>

definition raw_ab_c :: pydict where
  "raw_ab_c = [''title'' \<mapsto> PStr ''ab'', ''description'' \<mapsto> PStr ''c'', ''url'' \<mapsto> PStr ''u1'']"

definition raw_a_bc :: pydict where
  "raw_a_bc = [''title'' \<mapsto> PStr ''a'', ''description'' \<mapsto> PStr ''bc'']"

definition raw_ab_c_other :: pydict where
  "raw_ab_c_other = [''title'' \<mapsto> PStr ''ab'', ''description'' \<mapsto> PStr ''c'', ''score'' \<mapsto> PInt 7]"

definition id_digest :: "string \<Rightarrow> string" where
  "id_digest s = s"

definition ex_dumps :: "pydict \<Rightarrow> string" where
  "ex_dumps d = ''{}''"

definition ex_repr :: "pyval \<Rightarrow> string" where
  "ex_repr v = ''[]''"

text \<open>Configurations, environments and backends to construct a manager with.\<close>

definition supabase_config :: pydict where
  "supabase_config = [''type'' \<mapsto> PStr ''supabase'']"

definition no_key_env :: environ where
  "no_key_env = \<lparr> SUPABASE_URL = Some ''https://x'', SUPABASE_KEY = None \<rparr>"

definition full_env :: environ where
  "full_env = \<lparr> SUPABASE_URL = Some ''https://x'', SUPABASE_KEY = Some ''k'' \<rparr>"

definition empty_db :: sqlite_db where
  "empty_db = \<lparr> raw_ideas = [], raw_seq = 0, analyzed_ideas = [], analyzed_seq = 0 \<rparr>"

definition ok_client :: "string \<Rightarrow> string \<Rightarrow> py_error + hosted_row list" where
  "ok_client url key = Inr []"

definition failing_client :: "string \<Rightarrow> string \<Rightarrow> py_error + hosted_row list" where
  "failing_client url key = Inl APIError"

text \<open>
  A raw row created at 01:00 UTC of day 10, on a machine whose local clock is UTC and reads
  12:00 of day 40: with a retention of 30 days the cutoff is 12:00 of day 10.
\<close>

definition early_row :: raw_row where
  "early_row = \<lparr> r_id = 1, r_title = SText ''a'', r_description = SText ''d'', r_url = SText ''u'',
      r_source = SText ''s'', r_timestamp = SText ''t'', r_hash = SText ''h1'',
      r_raw_content = SText ''{}'', r_created_at = 10 * 86400 + 3600 \<rparr>"

definition early_db :: sqlite_db where
  "early_db = \<lparr> raw_ideas = [early_row], raw_seq = 1, analyzed_ideas = [], analyzed_seq = 0 \<rparr>"

definition noon_day_40 :: int where
  "noon_day_40 = 40 * 86400 + 43200"

text \<open>
  A raw row created at 21:30 UTC of day 10, on a machine 14 hours ahead of UTC whose local
  clock reads 00:30 of day 41, that is 10:30 UTC of day 40: with a retention of 30 days the
  cutoff is 10:30 UTC of day 10, and 00:30 of day 11 on the local clock.
\<close>

definition recent_row :: raw_row where
  "recent_row = \<lparr> r_id = 1, r_title = SText ''b'', r_description = SText ''d'', r_url = SText ''u'',
      r_source = SText ''s'', r_timestamp = SText ''t'', r_hash = SText ''h2'',
      r_raw_content = SText ''{}'', r_created_at = 10 * 86400 + 77400 \<rparr>"

definition recent_db :: sqlite_db where
  "recent_db = \<lparr> raw_ideas = [recent_row], raw_seq = 1, analyzed_ideas = [], analyzed_seq = 0 \<rparr>"

definition utc_plus_14 :: int where
  "utc_plus_14 = 14 * 3600"

definition half_past_midnight_day_41 :: int where
  "half_past_midnight_day_41 = 41 * 86400 + 1800"

text \<open>
  A service that deletes nothing and keeps the cutoffs it is asked to delete before: it
  shows what the Supabase path sends.
\<close>

definition recording_delete :: "int list \<Rightarrow> int \<Rightarrow> py_error + int list \<times> pydict list" where
  "recording_delete received cutoff = Inr (received @ [cutoff], [])"


definition ex_value_dumps :: "pyval \<Rightarrow> string" where
  "ex_value_dumps v = ''{}''"

text \<open>An idea as the normalizer produces it.\<close>

definition raw_idea :: pydict where
  "raw_idea = [''title'' \<mapsto> PStr ''a'', ''description'' \<mapsto> PStr ''d'', ''url'' \<mapsto> PStr ''u'',
      ''source'' \<mapsto> PStr ''Reddit'', ''timestamp'' \<mapsto> PStr ''t0'', ''raw_content'' \<mapsto> PStr ''{}'',
      ''hash'' \<mapsto> PStr ''h1'']"

section \<open>Properties of the deduplicator\<close>

lemma hash_loop_falsy:
  "\<forall>i\<in>set ideas. \<not> truthy (get_none i ''hash'') \<Longrightarrow> hash_loop hm ideas = Inr hm"
  by (induction ideas arbitrary: hm) (simp_all add: Let_def)

lemma hash_loop_values:
  "hash_loop hm ideas = Inr hm' \<Longrightarrow> i \<in> set (map snd hm') \<Longrightarrow>
   i \<in> set (map snd hm) \<or> (i \<in> set ideas \<and> truthy (get_none i ''hash''))"
proof (induction ideas arbitrary: hm)
  case Nil
  then show ?case by simp
next
  case (Cons idea ideas)
  show ?case
  proof (cases "truthy (get_none idea ''hash'')")
    case False
    with Cons.prems have "hash_loop hm ideas = Inr hm'" by (simp add: Let_def)
    from Cons.IH[OF this Cons.prems(2)] show ?thesis by auto
  next
    case True
    note t = this
    show ?thesis
    proof (cases "key_of (get_none idea ''hash'') \<in> set (map fst hm)")
      case True
      with t Cons.prems have "hash_loop hm ideas = Inr hm'"
        by (simp add: Let_def split: if_splits)
      from Cons.IH[OF this Cons.prems(2)] show ?thesis by auto
    next
      case False
      with t Cons.prems have "hash_loop (hm @ [(key_of (get_none idea ''hash''), idea)]) ideas = Inr hm'"
        by (simp add: Let_def split: if_splits)
      from Cons.IH[OF this Cons.prems(2)] t show ?thesis by auto
    qed
  qed
qed

lemma fuzzy_loop_subset:
  "fuzzy_loop F ratio thr acc cs = Inr out \<Longrightarrow> set out \<subseteq> set acc \<union> set cs"
proof (induction cs arbitrary: acc)
  case Nil
  then show ?case by simp
next
  case (Cons c cs)
  from Cons.prems obtain dup where
    r: "fuzzy_loop F ratio thr (if dup then acc else acc @ [c]) cs = Inr out"
    by (simp split: sum.splits)
  from Cons.IH[OF r] show ?case by (auto split: if_splits)
qed

text \<open>
  Claim C9.  In the exact stage an idea whose \<open>hash\<close> is absent, \<open>None\<close> or the empty
  string (any falsy value) is dropped: the survivors of the exact stage, and the ideas the
  deduplicator returns, are input ideas with a truthy \<open>hash\<close>; and when no input idea has a
  truthy \<open>hash\<close> the deduplicator returns the empty list.
\<close>

theorem falsy_hash_dropped:
  "(hash_loop [] ideas = Inr hm \<longrightarrow> (\<forall>i\<in>set (map snd hm). i \<in> set ideas \<and> truthy (get_none i ''hash''))) \<and>
   (deduplicate_ideas F ratio thr ideas = Inr out \<longrightarrow> (\<forall>i\<in>set out. i \<in> set ideas \<and> truthy (get_none i ''hash''))) \<and>
   ((\<forall>i\<in>set ideas. \<not> truthy (get_none i ''hash'')) \<longrightarrow> deduplicate_ideas F ratio thr ideas = Inr [])"
proof (intro conjI impI)
  assume "hash_loop [] ideas = Inr hm"
  from hash_loop_values[OF this]
  show "\<forall>i\<in>set (map snd hm). i \<in> set ideas \<and> truthy (get_none i ''hash'')" by auto
next
  assume d: "deduplicate_ideas F ratio thr ideas = Inr out"
  show "\<forall>i\<in>set out. i \<in> set ideas \<and> truthy (get_none i ''hash'')"
  proof (cases "ideas = []")
    case True
    with d show ?thesis by (simp add: deduplicate_ideas_def)
  next
    case False
    with d obtain hm where h: "hash_loop [] ideas = Inr hm"
      and f: "fuzzy_loop F ratio thr [] (map snd hm) = Inr out"
      by (auto simp: deduplicate_ideas_def split: sum.splits)
    show ?thesis
    proof
      fix i assume "i \<in> set out"
      with fuzzy_loop_subset[OF f] have "i \<in> set (map snd hm)" by auto
      from hash_loop_values[OF h this] show "i \<in> set ideas \<and> truthy (get_none i ''hash'')" by simp
    qed
  qed
next
  assume "\<forall>i\<in>set ideas. \<not> truthy (get_none i ''hash'')"
  then show "deduplicate_ideas F ratio thr ideas = Inr []"
    by (simp add: deduplicate_ideas_def hash_loop_falsy)
qed

theorem falsy_hash_dropped_witness:
  "hash_loop [] mixed_hash_ideas = Inr [(PStr ''h1'', [''title'' \<mapsto> PStr ''b'', ''hash'' \<mapsto> PStr ''h1''])] \<and>
   deduplicate_ideas rat_ops ex_ratio (85 / 100) mixed_hash_ideas = Inr [[''title'' \<mapsto> PStr ''b'', ''hash'' \<mapsto> PStr ''h1'']] \<and>
   truthy (get_none [''title'' \<mapsto> PStr ''b'', ''hash'' \<mapsto> PStr ''h1''] ''hash'') \<and>
   list_all (\<lambda>i. \<not> truthy (get_none i ''hash'')) no_hash_ideas \<and>
   deduplicate_ideas rat_ops ex_ratio (85 / 100) no_hash_ideas = Inr []"
proof -
  have h: "\<forall>i\<in>set no_hash_ideas. \<not> truthy (get_none i ''hash'')"
    by (simp add: no_hash_ideas_def get_none_def)
  have a: "hash_loop [] mixed_hash_ideas = Inr [(PStr ''h1'', [''title'' \<mapsto> PStr ''b'', ''hash'' \<mapsto> PStr ''h1''])]"
    by (simp add: mixed_hash_ideas_def get_none_def Let_def)
  have b: "deduplicate_ideas rat_ops ex_ratio (85 / 100) mixed_hash_ideas = Inr [[''title'' \<mapsto> PStr ''b'', ''hash'' \<mapsto> PStr ''h1'']]"
    by (simp add: deduplicate_ideas_def mixed_hash_ideas_def get_none_def Let_def)
  from falsy_hash_dropped[of no_hash_ideas "[]" rat_ops ex_ratio "85 / 100" "[]"] h
  have c: "deduplicate_ideas rat_ops ex_ratio (85 / 100) no_hash_ideas = Inr []" by blast
  from falsy_hash_dropped[of mixed_hash_ideas _ rat_ops ex_ratio "85 / 100"] a b
  have d: "truthy (get_none [''title'' \<mapsto> PStr ''b'', ''hash'' \<mapsto> PStr ''h1''] ''hash'')" by simp
  from a b c d h show ?thesis by (simp add: list_all_iff)
qed

lemma is_duplicate_sound:
  "is_duplicate F ratio thr c acc = Inr b \<Longrightarrow>
   b = (\<exists>u\<in>set acc. reaches_threshold F ratio thr c u)"
proof (induction acc)
  case Nil
  then show ?case by simp
next
  case (Cons u us)
  from Cons.prems obtain s where s: "similarity F ratio c u = Inr s"
    by (auto split: sum.splits)
  show ?case
  proof (cases "fge F s (fmul F thr (f_of_int F 100))")
    case True
    with s Cons.prems show ?thesis by (auto simp: reaches_threshold_def)
  next
    case False
    with s Cons.prems have "is_duplicate F ratio thr c us = Inr b" by simp
    from Cons.IH[OF this] False s show ?thesis by (simp add: reaches_threshold_def)
  qed
qed

lemma is_duplicate_total:
  "\<forall>u\<in>set acc. \<exists>s. similarity F ratio c u = Inr s \<Longrightarrow>
   \<exists>b. is_duplicate F ratio thr c acc = Inr b"
proof (induction acc)
  case Nil
  then show ?case by auto
next
  case (Cons u us)
  then obtain s where s: "similarity F ratio c u = Inr s" by auto
  from Cons have "\<exists>b. is_duplicate F ratio thr c us = Inr b" by simp
  with s show ?case by auto
qed

lemma fuzzy_loop_sound:
  "fuzzy_loop F ratio thr acc cs = Inr out \<Longrightarrow>
   out = first_seen_scan (reaches_threshold F ratio thr) acc cs"
proof (induction cs arbitrary: acc)
  case Nil
  then show ?case by simp
next
  case (Cons c cs)
  from Cons.prems obtain dup where d: "is_duplicate F ratio thr c acc = Inr dup"
    and r: "fuzzy_loop F ratio thr (if dup then acc else acc @ [c]) cs = Inr out"
    by (auto split: sum.splits)
  from is_duplicate_sound[OF d] Cons.IH[OF r] show ?case by simp
qed

lemma fuzzy_loop_total:
  "\<forall>a\<in>set acc \<union> set cs. \<forall>b\<in>set acc \<union> set cs. \<exists>s. similarity F ratio a b = Inr s \<Longrightarrow>
   \<exists>out. fuzzy_loop F ratio thr acc cs = Inr out"
proof (induction cs arbitrary: acc)
  case Nil
  then show ?case by simp
next
  case (Cons c cs)
  from Cons.prems have "\<forall>u\<in>set acc. \<exists>s. similarity F ratio c u = Inr s" by simp
  from is_duplicate_total[OF this] obtain dup where d: "is_duplicate F ratio thr c acc = Inr dup"
    by blast
  let ?acc = "if dup then acc else acc @ [c]"
  from Cons.prems
  have "\<forall>a\<in>set ?acc \<union> set cs. \<forall>b\<in>set ?acc \<union> set cs. \<exists>s. similarity F ratio a b = Inr s"
    by simp
  from Cons.IH[OF this] d show ?case by simp
qed


text \<open>
  Claim C1.  The fuzzy stage scans the ideas in their order and compares a candidate only with
  the ideas already accepted: whenever it returns, its result is the first-seen scan, in which
  a candidate is dropped exactly when it reaches the threshold against some accepted idea and
  is appended otherwise; it returns whenever no comparison raises.  For ideas with textual
  titles and descriptions, reaching the threshold means
  \<open>ratio(titles) * 0.7 + ratio(first 200 characters of the descriptions) * 0.3 >=
  similarity_threshold * 100\<close>, in the arithmetic of the code.
\<close>

theorem fuzzy_stage_first_seen:
  "(fuzzy_loop F ratio thr [] ideas = Inr out \<longrightarrow>
      out = first_seen_scan (reaches_threshold F ratio thr) [] ideas) \<and>
   ((\<forall>a\<in>set ideas. \<forall>b\<in>set ideas. \<exists>s. similarity F ratio a b = Inr s) \<longrightarrow>
      fuzzy_loop F ratio thr [] ideas =
        Inr (first_seen_scan (reaches_threshold F ratio thr) [] ideas)) \<and>
   (idea ''title'' = Some (PStr t1) \<and> u ''title'' = Some (PStr t2) \<and>
    idea ''description'' = Some (PStr d1) \<and> u ''description'' = Some (PStr d2) \<and>
    ratio (PStr t1) (PStr t2) = Inr ts \<and>
    ratio (PStr (take 200 d1)) (PStr (take 200 d2)) = Inr ds \<longrightarrow>
      reaches_threshold F ratio thr idea u =
        fge F (fadd F (fmul F (f_of_int F ts) (f07 F)) (fmul F (f_of_int F ds) (f03 F)))
              (fmul F thr (f_of_int F 100)))"
proof (intro conjI impI)
  assume "fuzzy_loop F ratio thr [] ideas = Inr out"
  then show "out = first_seen_scan (reaches_threshold F ratio thr) [] ideas"
    by (rule fuzzy_loop_sound)
next
  assume "\<forall>a\<in>set ideas. \<forall>b\<in>set ideas. \<exists>s. similarity F ratio a b = Inr s"
  then have "\<forall>a\<in>set [] \<union> set ideas. \<forall>b\<in>set [] \<union> set ideas. \<exists>s. similarity F ratio a b = Inr s"
    by simp
  from fuzzy_loop_total[OF this] obtain out where o: "fuzzy_loop F ratio thr [] ideas = Inr out"
    by blast
  from fuzzy_loop_sound[OF o] o
  show "fuzzy_loop F ratio thr [] ideas = Inr (first_seen_scan (reaches_threshold F ratio thr) [] ideas)"
    by simp
next
  assume "idea ''title'' = Some (PStr t1) \<and> u ''title'' = Some (PStr t2) \<and>
    idea ''description'' = Some (PStr d1) \<and> u ''description'' = Some (PStr d2) \<and>
    ratio (PStr t1) (PStr t2) = Inr ts \<and>
    ratio (PStr (take 200 d1)) (PStr (take 200 d2)) = Inr ds"
  then show "reaches_threshold F ratio thr idea u =
        fge F (fadd F (fmul F (f_of_int F ts) (f07 F)) (fmul F (f_of_int F ds) (f03 F)))
              (fmul F thr (f_of_int F 100))"
    by (simp add: reaches_threshold_def similarity_def get_default_def)
qed

lemma sim_ex:
  "similarity rat_ops ex_ratio a b =
     (case slice200 (get_default a ''description'' (PStr [])) of Inl e \<Rightarrow> Inl e | Inr d1 \<Rightarrow>
      case slice200 (get_default b ''description'' (PStr [])) of Inl e \<Rightarrow> Inl e | Inr d2 \<Rightarrow>
        Inr ((if get_default a ''title'' (PStr []) = get_default b ''title'' (PStr []) then 70 else 0)
           + (if d1 = d2 then 30 else 0)))"
  by (simp add: similarity_def ex_ratio_def rat_ops_def split: sum.splits)

theorem fuzzy_stage_first_seen_witness:
  "list_all (\<lambda>a. list_all (\<lambda>b. \<exists>s. similarity rat_ops ex_ratio a b = Inr s) [idea_a, idea_b, idea_c])
     [idea_a, idea_b, idea_c] \<and>
   fuzzy_loop rat_ops ex_ratio (85 / 100) [] [idea_a, idea_b, idea_c] = Inr [idea_a, idea_c] \<and>
   reaches_threshold rat_ops ex_ratio (85 / 100) idea_b idea_a \<and>
   \<not> reaches_threshold rat_ops ex_ratio (85 / 100) idea_c idea_a"
proof -
  have sims: "\<forall>a\<in>set [idea_a, idea_b, idea_c]. \<forall>b\<in>set [idea_a, idea_b, idea_c].
      \<exists>s. similarity rat_ops ex_ratio a b = Inr s"
    by (simp add: sim_ex idea_a_def idea_b_def idea_c_def get_default_def)
  have ba: "reaches_threshold rat_ops ex_ratio (85 / 100) idea_b idea_a"
    unfolding reaches_threshold_def sim_ex
    by (simp add: idea_a_def idea_b_def get_default_def rat_ops_def)
  have ca: "\<not> reaches_threshold rat_ops ex_ratio (85 / 100) idea_c idea_a"
    unfolding reaches_threshold_def sim_ex
    by (simp add: idea_a_def idea_c_def get_default_def rat_ops_def)
  from fuzzy_stage_first_seen[of rat_ops ex_ratio "85 / 100" "[idea_a, idea_b, idea_c]"] sims
  have "fuzzy_loop rat_ops ex_ratio (85 / 100) [] [idea_a, idea_b, idea_c] =
      Inr (first_seen_scan (reaches_threshold rat_ops ex_ratio (85 / 100)) [] [idea_a, idea_b, idea_c])"
    by blast
  with ba ca have "fuzzy_loop rat_ops ex_ratio (85 / 100) [] [idea_a, idea_b, idea_c] = Inr [idea_a, idea_c]"
    by simp
  with sims ba ca show ?thesis by (simp add: list_all_iff)
qed

lemma accepted_chain_snoc:
  "accepted_chain F ratio thr before (xs @ [x]) =
     (accepted_chain F ratio thr before xs \<and> is_duplicate F ratio thr x (before @ xs) = Inr False)"
  by (induction xs arbitrary: before) auto

lemma fuzzy_loop_chain:
  "fuzzy_loop F ratio thr acc cs = Inr out \<Longrightarrow> accepted_chain F ratio thr [] acc \<Longrightarrow>
   accepted_chain F ratio thr [] out"
proof (induction cs arbitrary: acc)
  case Nil
  then show ?case by simp
next
  case (Cons c cs)
  from Cons.prems(1) obtain dup where d: "is_duplicate F ratio thr c acc = Inr dup"
    and r: "fuzzy_loop F ratio thr (if dup then acc else acc @ [c]) cs = Inr out"
    by (auto split: sum.splits)
  from d Cons.prems(2) have "accepted_chain F ratio thr [] (if dup then acc else acc @ [c])"
    by (simp add: accepted_chain_snoc)
  from Cons.IH[OF r this] show ?case .
qed

lemma fuzzy_loop_fixed:
  "accepted_chain F ratio thr acc rest \<Longrightarrow> fuzzy_loop F ratio thr acc rest = Inr (acc @ rest)"
  by (induction rest arbitrary: acc) auto

lemma keys_ok_drop:
  "keys_ok (acc @ c # cs) \<Longrightarrow> keys_ok (acc @ cs)"
  by (auto simp: keys_ok_def)

lemma fuzzy_loop_keys_ok:
  "fuzzy_loop F ratio thr acc cs = Inr out \<Longrightarrow> keys_ok (acc @ cs) \<Longrightarrow> keys_ok out"
proof (induction cs arbitrary: acc)
  case Nil
  then show ?case by simp
next
  case (Cons c cs)
  from Cons.prems(1) obtain dup where
    r: "fuzzy_loop F ratio thr (if dup then acc else acc @ [c]) cs = Inr out"
    by (auto split: sum.splits)
  from Cons.prems(2) keys_ok_drop[of acc c cs]
  have "keys_ok ((if dup then acc else acc @ [c]) @ cs)" by simp
  from Cons.IH[OF r this] show ?case .
qed

lemma hash_loop_keys:
  "hash_loop hm ideas = Inr hm' \<Longrightarrow> map fst hm = map idea_key (map snd hm) \<Longrightarrow>
   keys_ok (map snd hm) \<Longrightarrow>
   map fst hm' = map idea_key (map snd hm') \<and> keys_ok (map snd hm')"
proof (induction ideas arbitrary: hm)
  case Nil
  then show ?case by simp
next
  case (Cons idea ideas)
  let ?h = "get_none idea ''hash''"
  show ?case
  proof (cases "truthy ?h \<and> key_of ?h \<notin> set (map fst hm)")
    case False
    with Cons.prems(1) have "hash_loop hm ideas = Inr hm'"
      by (auto simp: Let_def split: if_splits)
    from Cons.IH[OF this Cons.prems(2,3)] show ?thesis .
  next
    case True
    with Cons.prems(1) have hs: "hashable ?h"
      and r: "hash_loop (hm @ [(key_of ?h, idea)]) ideas = Inr hm'"
      by (auto simp: Let_def split: if_splits)
    have a: "map fst (hm @ [(key_of ?h, idea)]) = map idea_key (map snd (hm @ [(key_of ?h, idea)]))"
      using Cons.prems(2) by (simp add: idea_key_def)
    have b: "keys_ok (map snd (hm @ [(key_of ?h, idea)]))"
      using Cons.prems(2,3) True hs by (auto simp: keys_ok_def idea_key_def)
    from Cons.IH[OF r a b] show ?thesis .
  qed
qed

lemma hash_loop_fixed:
  "map fst hm = map idea_key (map snd hm) \<Longrightarrow> keys_ok (map snd hm @ xs) \<Longrightarrow>
   hash_loop hm xs = Inr (hm @ map (\<lambda>i. (idea_key i, i)) xs)"
proof (induction xs arbitrary: hm)
  case Nil
  then show ?case by simp
next
  case (Cons x xs)
  let ?h = "get_none x ''hash''"
  from Cons.prems(2) have t: "truthy ?h" and hs: "hashable ?h"
    and n: "idea_key x \<notin> set (map idea_key (map snd hm))"
    by (auto simp: keys_ok_def)
  have a: "map fst (hm @ [(idea_key x, x)]) = map idea_key (map snd (hm @ [(idea_key x, x)]))"
    using Cons.prems(1) by simp
  have b: "keys_ok (map snd (hm @ [(idea_key x, x)]) @ xs)"
    using Cons.prems(2) by simp
  from Cons.IH[OF a b] t hs n Cons.prems(1) show ?case
    by (simp add: Let_def idea_key_def)
qed

lemma hash_loop_same_key:
  "\<forall>i\<in>set ideas. truthy (get_none i ''hash'') \<and> hashable (get_none i ''hash'') \<and>
      key_of (get_none i ''hash'') \<in> set (map fst hm) \<Longrightarrow>
   hash_loop hm ideas = Inr hm"
  by (induction ideas) (simp_all add: Let_def)

text \<open>
  Claim C7.  When every idea of a non-empty input carries the same fingerprint (a truthy,
  hashable \<open>hash\<close>, as the normalizer's digest is), the deduplicator returns exactly the first
  idea.  The deduplicator is idempotent: whenever it returns \<open>out\<close>, running it on \<open>out\<close>
  returns \<open>out\<close> again, and no idea of \<open>out\<close> is a duplicate of the ideas before it.
\<close>

theorem dedup_one_fingerprint_idempotent:
  "(truthy h \<and> hashable h \<and> (\<forall>i\<in>set (first # rest). i ''hash'' = Some h) \<longrightarrow>
      deduplicate_ideas F ratio thr (first # rest) = Inr [first]) \<and>
   (deduplicate_ideas F ratio thr ideas = Inr out \<longrightarrow>
      deduplicate_ideas F ratio thr out = Inr out \<and> accepted_chain F ratio thr [] out)"
proof -
  have p1: "deduplicate_ideas F ratio thr (first # rest) = Inr [first]"
    if a: "truthy h \<and> hashable h \<and> (\<forall>i\<in>set (first # rest). i ''hash'' = Some h)"
  proof -
  from a have g: "\<forall>i\<in>set (first # rest). get_none i ''hash'' = h"
    by (auto simp: get_none_def)
  with a have "\<forall>i\<in>set rest. truthy (get_none i ''hash'') \<and> hashable (get_none i ''hash'') \<and>
      key_of (get_none i ''hash'') \<in> set (map fst [(key_of h, first)])"
    by simp
  from hash_loop_same_key[OF this]
  have "hash_loop [(key_of h, first)] rest = Inr [(key_of h, first)]" .
  with a g have "hash_loop [] (first # rest) = Inr [(key_of h, first)]"
    by (simp add: Let_def)
  then show ?thesis
    by (simp add: deduplicate_ideas_def)
  qed
  have p2: "deduplicate_ideas F ratio thr out = Inr out \<and> accepted_chain F ratio thr [] out"
    if d: "deduplicate_ideas F ratio thr ideas = Inr out"
  proof (cases "ideas = []")
    case True
    with d show ?thesis by (simp add: deduplicate_ideas_def)
  next
    case False
    with d obtain hm where h: "hash_loop [] ideas = Inr hm"
      and f: "fuzzy_loop F ratio thr [] (map snd hm) = Inr out"
      by (auto simp: deduplicate_ideas_def split: sum.splits)
    have k0: "keys_ok (map snd ([] :: (pyval \<times> pydict) list))" by (simp add: keys_ok_def)
    from hash_loop_keys[OF h _ k0] have "keys_ok (map snd hm)" by simp
    then have "keys_ok ([] @ map snd hm)" by simp
    from fuzzy_loop_keys_ok[OF f this] have ko: "keys_ok out" .
    then have "keys_ok (map snd ([] :: (pyval \<times> pydict) list) @ out)" by simp
    from hash_loop_fixed[OF _ this]
    have h2: "hash_loop [] out = Inr (map (\<lambda>i. (idea_key i, i)) out)" by simp
    have c0: "accepted_chain F ratio thr [] []" by simp
    from fuzzy_loop_chain[OF f c0] have ch: "accepted_chain F ratio thr [] out" .
    from fuzzy_loop_fixed[OF ch] have f2: "fuzzy_loop F ratio thr [] out = Inr out" by simp
    have "map snd (map (\<lambda>i. (idea_key i, i)) out) = out" by (simp add: comp_def)
    with h2 f2 have "deduplicate_ideas F ratio thr out = Inr out"
      by (simp add: deduplicate_ideas_def)
    with ch show ?thesis by simp
  qed
  from p1 p2 show ?thesis by blast
qed

lemma dedup_abc:
  "deduplicate_ideas rat_ops ex_ratio (85 / 100) [idea_a, idea_b, idea_c] = Inr [idea_a, idea_c]"
proof -
  have h: "hash_loop [] [idea_a, idea_b, idea_c] =
      Inr [(PStr ''h1'', idea_a), (PStr ''h2'', idea_b), (PStr ''h3'', idea_c)]"
    by (simp add: Let_def get_none_def idea_a_def idea_b_def idea_c_def)
  have s1: "similarity rat_ops ex_ratio idea_b idea_a = Inr 100"
    unfolding sim_ex by (simp add: idea_a_def idea_b_def get_default_def)
  have s2: "similarity rat_ops ex_ratio idea_c idea_a = Inr 70"
    unfolding sim_ex by (simp add: idea_a_def idea_c_def get_default_def)
  have f: "fuzzy_loop rat_ops ex_ratio (85 / 100) [] [idea_a, idea_b, idea_c] = Inr [idea_a, idea_c]"
    by (simp add: s1 s2) (simp add: rat_ops_def)
  from h f show ?thesis by (simp add: deduplicate_ideas_def)
qed

theorem dedup_one_fingerprint_idempotent_witness:
  "deduplicate_ideas rat_ops ex_ratio (85 / 100) [idea_a, idea_d] = Inr [idea_a] \<and>
   deduplicate_ideas rat_ops ex_ratio (85 / 100) [idea_a, idea_b, idea_c] = Inr [idea_a, idea_c] \<and>
   deduplicate_ideas rat_ops ex_ratio (85 / 100) [idea_a, idea_c] = Inr [idea_a, idea_c]"
proof -
  have "truthy (PStr ''h1'') \<and> hashable (PStr ''h1'') \<and>
      (\<forall>i\<in>set [idea_a, idea_d]. i ''hash'' = Some (PStr ''h1''))"
    by (simp add: idea_a_def idea_d_def)
  with dedup_one_fingerprint_idempotent[of "PStr ''h1''" idea_a "[idea_d]" rat_ops ex_ratio "85 / 100"]
  have one: "deduplicate_ideas rat_ops ex_ratio (85 / 100) [idea_a, idea_d] = Inr [idea_a]"
    by blast
  from dedup_one_fingerprint_idempotent[of _ _ _ rat_ops ex_ratio "85 / 100"
      "[idea_a, idea_b, idea_c]" "[idea_a, idea_c]"] dedup_abc
  have "deduplicate_ideas rat_ops ex_ratio (85 / 100) [idea_a, idea_c] = Inr [idea_a, idea_c]"
    by blast
  with one dedup_abc show ?thesis by simp
qed

section \<open>Properties of the analyzer and the relevance filter\<close>

lemma relevant_loop_filter:
  "\<forall>i\<in>set ideas. analyzed i \<longrightarrow> score_of i \<noteq> None \<Longrightarrow>
   relevant_loop t acc ideas =
     Inr (acc @ filter (\<lambda>i. analyzed i \<and> the (score_of i) \<ge> t) ideas)"
proof (induction ideas arbitrary: acc)
  case Nil
  then show ?case by simp
next
  case (Cons idea ideas)
  from Cons.prems have rest: "\<forall>i\<in>set ideas. analyzed i \<longrightarrow> score_of i \<noteq> None" by simp
  show ?case
  proof (cases "idea ''analysis''")
    case None
    with Cons.IH[OF rest] show ?thesis by (simp add: analyzed_def)
  next
    case (Some a)
    with Cons.prems obtain n where n: "score_of idea = Some n" by (auto simp: analyzed_def)
    with Some obtain kvs where a: "a = PDict kvs"
      by (auto simp: score_of_def split: pyval.splits)
    from n Some a have "\<exists>sc. obj_get a ''score'' (PInt 0) = Inr sc \<and> ge_threshold sc t = Inr (n \<ge> t)"
      by (auto simp: score_of_def split: option.splits pyval.splits)
    then obtain sc where "obj_get a ''score'' (PInt 0) = Inr sc" "ge_threshold sc t = Inr (n \<ge> t)"
      by blast
    with Some n Cons.IH[OF rest] show ?thesis by (simp add: analyzed_def)
  qed
qed

lemma filter_relevant_eq:
  assumes "\<forall>i\<in>set ideas. analyzed i \<longrightarrow> score_of i \<noteq> None"
  shows "filter_relevant t ideas = Inr (filter (score_at_least t) ideas)"
proof -
  have "filter (\<lambda>i. analyzed i \<and> the (score_of i) \<ge> t) ideas = filter (score_at_least t) ideas"
    using assms
    by (intro filter_cong refl) (auto simp: score_at_least_def analyzed_def score_of_def split: option.splits)
  with relevant_loop_filter[OF assms, of t "[]"] show ?thesis
    by (simp add: filter_relevant_def)
qed

text \<open>
  Claim C3, as amended.  When every analysis is an object whose score is absent (read as 0),
  an integer or a boolean, the relevance filter returns exactly the ideas that carry an
  analysis with a score of at least \<open>t\<close>, in input order.  With \<open>t = 0\<close> it returns all
  analyzed ideas provided no score is negative, and with \<open>t = 101\<close> it returns the empty list
  provided no score exceeds 100.
\<close>

theorem relevance_filter_subsequence:
  "(\<forall>i\<in>set ideas. analyzed i \<longrightarrow> score_of i \<noteq> None) \<longrightarrow>
     filter_relevant t ideas = Inr (filter (score_at_least t) ideas) \<and>
     ((\<forall>i\<in>set ideas. analyzed i \<longrightarrow> score_at_least 0 i) \<longrightarrow>
        filter_relevant 0 ideas = Inr (filter analyzed ideas)) \<and>
     ((\<forall>i\<in>set ideas. analyzed i \<longrightarrow> score_at_most 100 i) \<longrightarrow>
        filter_relevant 101 ideas = Inr [])"
proof (rule impI)
  assume w: "\<forall>i\<in>set ideas. analyzed i \<longrightarrow> score_of i \<noteq> None"
  have a: "filter_relevant t ideas = Inr (filter (score_at_least t) ideas)" for t
    using filter_relevant_eq[OF w] .
  have b: "filter_relevant 0 ideas = Inr (filter analyzed ideas)"
    if "\<forall>i\<in>set ideas. analyzed i \<longrightarrow> score_at_least 0 i"
  proof -
    have "filter (score_at_least 0) ideas = filter analyzed ideas"
      using that
      by (intro filter_cong refl) (auto simp: score_at_least_def analyzed_def score_of_def split: option.splits)
    with a[of 0] show ?thesis by simp
  qed
  have c: "filter_relevant 101 ideas = Inr []"
    if "\<forall>i\<in>set ideas. analyzed i \<longrightarrow> score_at_most 100 i"
  proof -
    have "filter (score_at_least 101) ideas = []"
      using that
      by (auto simp: filter_empty_conv score_at_least_def score_at_most_def analyzed_def score_of_def
          split: option.splits)
    with a[of 101] show ?thesis by simp
  qed
  from a b c show "filter_relevant t ideas = Inr (filter (score_at_least t) ideas) \<and>
     ((\<forall>i\<in>set ideas. analyzed i \<longrightarrow> score_at_least 0 i) \<longrightarrow>
        filter_relevant 0 ideas = Inr (filter analyzed ideas)) \<and>
     ((\<forall>i\<in>set ideas. analyzed i \<longrightarrow> score_at_most 100 i) \<longrightarrow>
        filter_relevant 101 ideas = Inr [])" by blast
qed

lemma score_exs:
  "score_of scored_90 = Some 90" "score_of scored_40 = Some 40" "score_of unanalyzed = None"
  "score_of scored_150 = Some 150"
  "analyzed scored_90" "analyzed scored_40" "\<not> analyzed unanalyzed" "analyzed scored_150"
  by (simp_all add: score_of_def analyzed_def scored_90_def scored_40_def unanalyzed_def scored_150_def)

theorem relevance_filter_subsequence_witness:
  "filter_relevant 65 [scored_90, unanalyzed, scored_40] = Inr [scored_90] \<and>
   filter_relevant 0 [scored_90, unanalyzed, scored_40] = Inr [scored_90, scored_40] \<and>
   filter_relevant 101 [scored_90, unanalyzed, scored_40] = Inr []"
proof -
  have w: "\<forall>i\<in>set [scored_90, unanalyzed, scored_40]. analyzed i \<longrightarrow> score_of i \<noteq> None"
    by (simp add: score_exs)
  have lo: "\<forall>i\<in>set [scored_90, unanalyzed, scored_40]. analyzed i \<longrightarrow> score_at_least 0 i"
    by (simp add: score_exs score_at_least_def)
  have hi: "\<forall>i\<in>set [scored_90, unanalyzed, scored_40]. analyzed i \<longrightarrow> score_at_most 100 i"
    by (simp add: score_exs score_at_most_def)
  from relevance_filter_subsequence[of "[scored_90, unanalyzed, scored_40]" 65] w lo hi
  show ?thesis by (simp add: score_exs score_at_least_def)
qed

text \<open>
  The score parsed from the response is not range-checked: an analyzed idea with score 150
  passes the filter at \<open>t = 101\<close>.
\<close>

theorem relevance_filter_101_counterexample:
  "analyzed scored_150 \<and> filter_relevant 101 [scored_150] = Inr [scored_150] \<and>
   filter_relevant 101 [scored_150] \<noteq> Inr []"
  by (simp add: filter_relevant_def scored_150_def analyzed_def)











section \<open>Properties of the normalizer\<close>

lemma normalize_hash:
  "normalize_data md5_hex dumps repr now data source ''hash'' = Some (PStr (md5_hex (hash_input repr data)))"
  by (simp add: normalize_data_def Let_def)

text \<open>
  Claim C8, as amended.  The fingerprint is the digest of the text of the title followed by
  the text of the description (a missing field counts as the empty string).  Two records with
  the same title and description get the same fingerprint whatever their other fields, their
  source and the time; so do two records whose title and description differ but concatenate
  to the same text; and two fingerprints are equal exactly when the digest agrees on the two
  concatenations.
\<close>

theorem fingerprint_of_concatenation:
  "normalize_data md5_hex dumps1 repr now1 d1 source1 ''hash'' = Some (PStr (md5_hex (hash_input repr d1))) \<and>
   (get_default d1 ''title'' (PStr []) = get_default d2 ''title'' (PStr []) \<and>
    get_default d1 ''description'' (PStr []) = get_default d2 ''description'' (PStr []) \<longrightarrow>
      normalize_data md5_hex dumps1 repr now1 d1 source1 ''hash'' =
      normalize_data md5_hex dumps2 repr now2 d2 source2 ''hash'') \<and>
   (hash_input repr d1 = hash_input repr d2 \<longrightarrow>
      normalize_data md5_hex dumps1 repr now1 d1 source1 ''hash'' =
      normalize_data md5_hex dumps2 repr now2 d2 source2 ''hash'') \<and>
   ((normalize_data md5_hex dumps1 repr now1 d1 source1 ''hash'' =
     normalize_data md5_hex dumps2 repr now2 d2 source2 ''hash'') =
    (md5_hex (hash_input repr d1) = md5_hex (hash_input repr d2)))"
  by (simp add: normalize_hash hash_input_def)

theorem fingerprint_of_concatenation_witness:
  "normalize_data id_digest ex_dumps ex_repr ''t1'' raw_ab_c ''Reddit'' ''hash'' = Some (PStr ''abc'') \<and>
   normalize_data id_digest ex_dumps ex_repr ''t1'' raw_ab_c ''Reddit'' ''hash'' =
   normalize_data id_digest ex_dumps ex_repr ''t2'' raw_ab_c_other ''HackerNews'' ''hash'' \<and>
   normalize_data id_digest ex_dumps ex_repr ''t1'' raw_ab_c ''Reddit'' ''hash'' =
   normalize_data id_digest ex_dumps ex_repr ''t2'' raw_a_bc ''HackerNews'' ''hash''"
proof -
  have a: "get_default raw_ab_c ''title'' (PStr []) = get_default raw_ab_c_other ''title'' (PStr []) \<and>
    get_default raw_ab_c ''description'' (PStr []) = get_default raw_ab_c_other ''description'' (PStr [])"
    by (simp add: raw_ab_c_def raw_ab_c_other_def get_default_def)
  have b: "hash_input ex_repr raw_ab_c = hash_input ex_repr raw_a_bc"
    by (simp add: hash_input_def raw_ab_c_def raw_a_bc_def get_default_def)
  have c: "id_digest (hash_input ex_repr raw_ab_c) = ''abc''"
    by (simp add: hash_input_def raw_ab_c_def get_default_def id_digest_def)
  from fingerprint_of_concatenation[of id_digest ex_dumps ex_repr "''t1''" raw_ab_c "''Reddit''"
      raw_ab_c_other ex_dumps "''t2''" "''HackerNews''"] a
  have "normalize_data id_digest ex_dumps ex_repr ''t1'' raw_ab_c ''Reddit'' ''hash'' =
      Some (PStr (id_digest (hash_input ex_repr raw_ab_c))) \<and>
    normalize_data id_digest ex_dumps ex_repr ''t1'' raw_ab_c ''Reddit'' ''hash'' =
    normalize_data id_digest ex_dumps ex_repr ''t2'' raw_ab_c_other ''HackerNews'' ''hash''"
    by blast
  with c
  have 1: "normalize_data id_digest ex_dumps ex_repr ''t1'' raw_ab_c ''Reddit'' ''hash'' = Some (PStr ''abc'') \<and>
    normalize_data id_digest ex_dumps ex_repr ''t1'' raw_ab_c ''Reddit'' ''hash'' =
    normalize_data id_digest ex_dumps ex_repr ''t2'' raw_ab_c_other ''HackerNews'' ''hash''"
    by metis
  from fingerprint_of_concatenation[of id_digest ex_dumps ex_repr "''t1''" raw_ab_c "''Reddit''"
      raw_a_bc ex_dumps "''t2''" "''HackerNews''"] b
  have 2: "normalize_data id_digest ex_dumps ex_repr ''t1'' raw_ab_c ''Reddit'' ''hash'' =
    normalize_data id_digest ex_dumps ex_repr ''t2'' raw_a_bc ''HackerNews'' ''hash''"
    by blast
  from 1 2 show ?thesis by metis
qed

text \<open>
  The title and the description are concatenated without a separator: the records
  (\<open>ab\<close>, \<open>c\<close>) and (\<open>a\<close>, \<open>bc\<close>) differ and get one fingerprint, even under a digest that
  never collides.
\<close>

theorem fingerprint_collision_counterexample:
  "(raw_ab_c ''title'', raw_ab_c ''description'') \<noteq> (raw_a_bc ''title'', raw_a_bc ''description'') \<and>
   normalize_data id_digest ex_dumps ex_repr ''t1'' raw_ab_c ''Reddit'' ''hash'' =
   normalize_data id_digest ex_dumps ex_repr ''t1'' raw_a_bc ''Reddit'' ''hash''"
  by (simp add: normalize_data_def hash_input_def raw_ab_c_def raw_a_bc_def get_default_def)

section \<open>Properties of the storage layer\<close>

lemma supabase_client_missing:
  "falsy_env (SUPABASE_URL env) \<or> falsy_env (SUPABASE_KEY env) \<Longrightarrow>
   supabase_client env create_client = Inl ValueError"
  by (simp add: supabase_client_def)

text \<open>
  Claim C6.  When the configured backend is \<open>supabase\<close> and a credential is missing or empty,
  or the client cannot be created, construction falls back: if SQLite initialises, the
  manager is complete with \<open>db_type = sqlite\<close> and the SQLite handle; if SQLite fails to
  initialise, on the fallback path or when it is the configured backend, its exception is
  the result of the construction.  With both credentials and a client, the manager keeps
  \<open>db_type = supabase\<close>.
\<close>

theorem supabase_falls_back_to_sqlite:
  "(config ''type'' = Some (PStr ''supabase'') \<and>
    (falsy_env (SUPABASE_URL env) \<or> falsy_env (SUPABASE_KEY env) \<or>
     (\<exists>e. supabase_client env create_client = Inl e)) \<longrightarrow>
      (connect = Inr db \<longrightarrow>
         database_manager_init config env create_client connect =
           Inr \<lparr> db_type = PStr ''sqlite'', conn = Some db, supabase = None \<rparr>) \<and>
      (connect = Inl err \<longrightarrow>
         database_manager_init config env create_client connect = Inl err)) \<and>
   (config ''type'' \<noteq> Some (PStr ''supabase'') \<and> connect = Inl err \<longrightarrow>
      database_manager_init config env create_client connect = Inl err) \<and>
   (config ''type'' = Some (PStr ''supabase'') \<and> supabase_client env create_client = Inr client \<longrightarrow>
      database_manager_init config env create_client connect =
        Inr \<lparr> db_type = PStr ''supabase'', conn = None, supabase = Some client \<rparr>)"
proof -
  have a: "database_manager_init config env create_client connect =
      init_sqlite connect \<lparr> db_type = PStr ''sqlite'', conn = None, supabase = None \<rparr>"
    if "config ''type'' = Some (PStr ''supabase'')"
       "falsy_env (SUPABASE_URL env) \<or> falsy_env (SUPABASE_KEY env) \<or>
        (\<exists>e. supabase_client env create_client = Inl e)"
  proof -
    from that(2) supabase_client_missing[of env create_client]
    obtain e where "supabase_client env create_client = Inl e" by blast
    with that(1) show ?thesis
      by (simp add: database_manager_init_def init_supabase_def get_default_def)
  qed
  have b: "database_manager_init config env create_client connect = Inl err"
    if "config ''type'' \<noteq> Some (PStr ''supabase'')" "connect = Inl err"
    using that
    by (auto simp: database_manager_init_def init_sqlite_def get_default_def Let_def split: option.splits)
  have c: "database_manager_init config env create_client connect =
        Inr \<lparr> db_type = PStr ''supabase'', conn = None, supabase = Some client \<rparr>"
    if "config ''type'' = Some (PStr ''supabase'')" "supabase_client env create_client = Inr client"
    using that by (simp add: database_manager_init_def init_supabase_def get_default_def)
  from a b c show ?thesis by (auto simp: init_sqlite_def)
qed

theorem supabase_falls_back_to_sqlite_witness:
  "database_manager_init supabase_config no_key_env ok_client (Inr empty_db) =
     Inr \<lparr> db_type = PStr ''sqlite'', conn = Some empty_db, supabase = None \<rparr> \<and>
   database_manager_init supabase_config full_env failing_client (Inr empty_db) =
     Inr \<lparr> db_type = PStr ''sqlite'', conn = Some empty_db, supabase = None \<rparr> \<and>
   database_manager_init supabase_config no_key_env ok_client (Inl OperationalError) =
     Inl OperationalError \<and>
   database_manager_init Map.empty full_env ok_client (Inl OperationalError) =
     Inl OperationalError \<and>
   database_manager_init supabase_config full_env ok_client (Inr empty_db) =
     Inr \<lparr> db_type = PStr ''supabase'', conn = None, supabase = Some [] \<rparr>"
proof -
  have t: "supabase_config ''type'' = Some (PStr ''supabase'')" by (simp add: supabase_config_def)
  have k: "falsy_env (SUPABASE_KEY no_key_env)" by (simp add: falsy_env_def no_key_env_def)
  have f: "\<exists>e. supabase_client full_env failing_client = Inl e"
    by (simp add: supabase_client_def full_env_def failing_client_def falsy_env_def)
  have o: "supabase_client full_env ok_client = Inr []"
    by (simp add: supabase_client_def full_env_def ok_client_def falsy_env_def)
  have n: "(Map.empty :: pydict) ''type'' \<noteq> Some (PStr ''supabase'')" by simp
  from supabase_falls_back_to_sqlite[of supabase_config no_key_env ok_client "Inr empty_db" empty_db] t k
  have 1: "database_manager_init supabase_config no_key_env ok_client (Inr empty_db) =
     Inr \<lparr> db_type = PStr ''sqlite'', conn = Some empty_db, supabase = None \<rparr>" by blast
  from supabase_falls_back_to_sqlite[of supabase_config full_env failing_client "Inr empty_db" empty_db] t f
  have 2: "database_manager_init supabase_config full_env failing_client (Inr empty_db) =
     Inr \<lparr> db_type = PStr ''sqlite'', conn = Some empty_db, supabase = None \<rparr>" by blast
  from supabase_falls_back_to_sqlite[of supabase_config no_key_env ok_client "Inl OperationalError" _ OperationalError] t k
  have 3: "database_manager_init supabase_config no_key_env ok_client (Inl OperationalError) =
     Inl OperationalError" by blast
  from supabase_falls_back_to_sqlite[of Map.empty full_env ok_client "Inl OperationalError" _ OperationalError] n
  have 4: "database_manager_init Map.empty full_env ok_client (Inl OperationalError) =
     Inl OperationalError" by blast
  from supabase_falls_back_to_sqlite[of supabase_config full_env ok_client "Inr empty_db" _ _ "[]"] t o
  have 5: "database_manager_init supabase_config full_env ok_client (Inr empty_db) =
     Inr \<lparr> db_type = PStr ''supabase'', conn = None, supabase = Some [] \<rparr>" by blast
  from 1 2 3 4 5 show ?thesis by simp
qed

lemma length_minus_kept:
  "length xs - length (filter (\<lambda>x. \<not> P x) xs) = length (filter P xs)"
  using sum_length_filter_compl[of P xs] by simp

text \<open>
  The SQLite cleanup in general: it removes the raw rows whose UTC day of creation is before
  the local day of the cutoff, counts them, and leaves \<open>analyzed_ideas\<close> as it was.
\<close>

lemma cleanup_sqlite_by_day:
  assumes "cutoff_of now days = Inr cutoff"
  shows "raw_ideas (fst (cleanup_old_raw_ideas_sqlite now days db)) =
           filter (\<lambda>r. date_of cutoff \<le> date_of (r_created_at r)) (raw_ideas db)"
    and "snd (cleanup_old_raw_ideas_sqlite now days db) =
           length (filter (\<lambda>r. date_of (r_created_at r) < date_of cutoff) (raw_ideas db))"
    and "analyzed_ideas (fst (cleanup_old_raw_ideas_sqlite now days db)) = analyzed_ideas db"
    and "cutoff = now - days * 86400"
proof -
  have f: "(\<lambda>r. \<not> date_of (r_created_at r) < date_of cutoff) =
      (\<lambda>r. date_of cutoff \<le> date_of (r_created_at r))" by auto
  from assms show "raw_ideas (fst (cleanup_old_raw_ideas_sqlite now days db)) =
           filter (\<lambda>r. date_of cutoff \<le> date_of (r_created_at r)) (raw_ideas db)"
    by (simp add: cleanup_old_raw_ideas_sqlite_def Let_def f)
  from assms show "snd (cleanup_old_raw_ideas_sqlite now days db) =
           length (filter (\<lambda>r. date_of (r_created_at r) < date_of cutoff) (raw_ideas db))"
    by (simp add: cleanup_old_raw_ideas_sqlite_def Let_def length_minus_kept)
  from assms show "analyzed_ideas (fst (cleanup_old_raw_ideas_sqlite now days db)) = analyzed_ideas db"
    by (simp add: cleanup_old_raw_ideas_sqlite_def Let_def)
  from assms show "cutoff = now - days * 86400"
    by (auto simp: cutoff_of_def Let_def split: if_splits)
qed

text \<open>The Supabase cleanup hands the service the cutoff itself, not its day.\<close>

lemma cleanup_supabase_request:
  "cutoff_of now days = Inr cutoff \<Longrightarrow>
   cleanup_old_raw_ideas_supabase delete_lt_execute now days h =
     (case delete_lt_execute h cutoff of
        Inl e \<Rightarrow> (h, 0)
      | Inr (h', data) \<Rightarrow> (h', length data))"
  by (simp add: cleanup_old_raw_ideas_supabase_def)

lemma cutoff_noon: "cutoff_of noon_day_40 30 = Inr (10 * 86400 + 43200)"
  by (simp add: cutoff_of_def noon_day_40_def datetime_min_def datetime_max_def)

lemma cutoff_half_past: "cutoff_of half_past_midnight_day_41 30 = Inr (11 * 86400 + 1800)"
  by (simp add: cutoff_of_def half_past_midnight_day_41_def datetime_min_def datetime_max_def)

text \<open>
  Claim C4.  The SQLite cleanup does not delete exactly the raw rows strictly older than
  \<open>now\<close> minus \<open>d\<close> days.  On a machine on UTC at 12:00 of day 40, with \<open>d = 30\<close>, a row
  created at 01:00 of day 10 is strictly older than the cutoff and is kept, and the count is
  0.  On a machine 14 hours ahead of UTC at 00:30 local time of day 41, with \<open>d = 30\<close>, a row
  created at 21:30 UTC of day 10 is newer than the cutoff and is deleted, and the count is 1.
  On the first input the Supabase path asks the service to delete the rows created before
  12:00 of day 10, time of day included.
\<close>

theorem cleanup_sqlite_compares_days:
  "r_created_at early_row < utc_of_local 0 noon_day_40 - 30 * 86400 \<and>
   cleanup_old_raw_ideas_sqlite noon_day_40 30 early_db = (early_db, 0) \<and>
   utc_of_local utc_plus_14 half_past_midnight_day_41 - 30 * 86400 < r_created_at recent_row \<and>
   raw_ideas (fst (cleanup_old_raw_ideas_sqlite half_past_midnight_day_41 30 recent_db)) = [] \<and>
   snd (cleanup_old_raw_ideas_sqlite half_past_midnight_day_41 30 recent_db) = 1 \<and>
   cleanup_old_raw_ideas_supabase recording_delete noon_day_40 30 [] = ([10 * 86400 + 43200], 0)"
proof -
  have 1: "r_created_at early_row < utc_of_local 0 noon_day_40 - 30 * 86400"
    by (simp add: early_row_def utc_of_local_def noon_day_40_def)
  have 2: "cleanup_old_raw_ideas_sqlite noon_day_40 30 early_db = (early_db, 0)"
    unfolding cleanup_old_raw_ideas_sqlite_def cutoff_noon
    by (simp add: Let_def early_db_def early_row_def date_of_def)
  have 3: "utc_of_local utc_plus_14 half_past_midnight_day_41 - 30 * 86400 < r_created_at recent_row"
    by (simp add: recent_row_def utc_of_local_def utc_plus_14_def half_past_midnight_day_41_def)
  have 4: "raw_ideas (fst (cleanup_old_raw_ideas_sqlite half_past_midnight_day_41 30 recent_db)) = []"
    unfolding cleanup_old_raw_ideas_sqlite_def cutoff_half_past
    by (simp add: Let_def recent_db_def recent_row_def date_of_def)
  have 5: "snd (cleanup_old_raw_ideas_sqlite half_past_midnight_day_41 30 recent_db) = 1"
    unfolding cleanup_old_raw_ideas_sqlite_def cutoff_half_past
    by (simp add: Let_def recent_db_def recent_row_def date_of_def)
  have 6: "cleanup_old_raw_ideas_supabase recording_delete noon_day_40 30 [] = ([10 * 86400 + 43200], 0)"
    unfolding cleanup_old_raw_ideas_supabase_def cutoff_noon
    by (simp add: recording_delete_def)
  from 1 2 3 4 5 6 show ?thesis by blast
qed










lemma raw_content_step:
  "(case idea ''raw_content'' of
      Some (PStr s) \<Rightarrow> Inr idea
    | Some v \<Rightarrow> Inr (idea(''raw_content'' \<mapsto> PStr (json_dumps v)))
    | None \<Rightarrow> Inl KeyError) = Inr idea' \<Longrightarrow>
   get_default idea' ''hash'' (PStr []) = get_default idea ''hash'' (PStr [])"
  by (auto simp: get_default_def split: option.splits pyval.splits)

lemma bind_all_7:
  "bind_all [v1, v2, v3, v4, v5, v6, v7] = Inr ps \<Longrightarrow>
   \<exists>t d u s ts h rc. ps = [t, d, u, s, ts, h, rc] \<and> bind_param v6 = Inr h"
  by (auto split: sum.splits)

lemma raw_params_shape:
  assumes "raw_insert_params json_dumps now_iso idea = Inr ps"
  shows "\<exists>t d u s ts h rc. ps = [t, d, u, s, ts, h, rc] \<and>
           bind_param (get_default idea ''hash'' (PStr [])) = Inr h"
proof -
  from assms obtain idea' where
    i: "(case idea ''raw_content'' of
      Some (PStr s) \<Rightarrow> Inr idea
    | Some v \<Rightarrow> Inr (idea(''raw_content'' \<mapsto> PStr (json_dumps v)))
    | None \<Rightarrow> Inl KeyError) = Inr idea'"
    and b: "bind_all [get_default idea' ''title'' (PStr []),
                    get_default idea' ''description'' (PStr []),
                    get_default idea' ''url'' (PStr []),
                    get_default idea' ''source'' (PStr []),
                    get_default idea' ''timestamp'' (PStr now_iso),
                    get_default idea' ''hash'' (PStr []),
                    get_default idea' ''raw_content'' (PStr ''{}'')] = Inr ps"
    unfolding raw_insert_params_def by (cases "case idea ''raw_content'' of
      Some (PStr s) \<Rightarrow> Inr idea
    | Some v \<Rightarrow> Inr (idea(''raw_content'' \<mapsto> PStr (json_dumps v)))
    | None \<Rightarrow> Inl KeyError") simp_all
  from bind_all_7[OF b] raw_content_step[OF i] show ?thesis by simp
qed

lemma insert_or_ignore_raw_cases:
  assumes "ps = [t, d, u, s, ts, h, rc]"
  shows "insert_or_ignore_raw clock ps db = Inr (db\<lparr> raw_seq := Suc (raw_seq db) \<rparr>, 0) \<or>
         (\<exists>row. insert_or_ignore_raw clock ps db =
            Inr (db\<lparr> raw_ideas := raw_ideas db @ [row], raw_seq := Suc (raw_seq db) \<rparr>, 1) \<and>
            r_hash row = text_affinity h)"
proof (cases "text_affinity t = SNull \<or>
    (text_affinity h \<noteq> SNull \<and> text_affinity h \<in> set (map r_hash (raw_ideas db)))")
  case True
  then show ?thesis unfolding assms by (auto simp: insert_or_ignore_raw_def)
next
  case False
  let ?row = "\<lparr> r_id = Suc (raw_seq db), r_title = text_affinity t, r_description = text_affinity d,
      r_url = text_affinity u, r_source = text_affinity s, r_timestamp = text_affinity ts,
      r_hash = text_affinity h, r_raw_content = text_affinity rc, r_created_at = clock \<rparr>"
  from False have "insert_or_ignore_raw clock ps db =
      Inr (db\<lparr> raw_ideas := raw_ideas db @ [?row], raw_seq := Suc (raw_seq db) \<rparr>, 1)"
    unfolding assms by (auto simp: insert_or_ignore_raw_def)
  moreover have "r_hash ?row = text_affinity h" by simp
  ultimately show ?thesis by blast
qed

lemma insert_or_ignore_raw_present:
  assumes "ps = [t, d, u, s, ts, h, rc]" and "text_affinity h \<noteq> SNull"
    and "text_affinity h \<in> set (map r_hash (raw_ideas db))"
  shows "insert_or_ignore_raw clock ps db = Inr (db\<lparr> raw_seq := Suc (raw_seq db) \<rparr>, 0)"
  unfolding assms(1) using assms(2,3) by (simp add: insert_or_ignore_raw_def)

lemma store_raw_single_cases:
  "(raw_ideas (fst (store_raw_ideas_sqlite json_dumps now_iso clock db [idea])) = raw_ideas db \<and>
    snd (store_raw_ideas_sqlite json_dumps now_iso clock db [idea]) = 0) \<or>
   (\<exists>row. raw_ideas (fst (store_raw_ideas_sqlite json_dumps now_iso clock db [idea])) =
        raw_ideas db @ [row] \<and>
      snd (store_raw_ideas_sqlite json_dumps now_iso clock db [idea]) = 1 \<and>
      r_hash row = stored_hash idea)"
proof (cases "raw_insert_params json_dumps now_iso idea")
  case (Inl e)
  then show ?thesis by (simp add: store_raw_ideas_sqlite_def)
next
  case (Inr ps)
  from raw_params_shape[OF Inr] obtain t d u s ts h rc where
    ps: "ps = [t, d, u, s, ts, h, rc]"
    and h: "bind_param (get_default idea ''hash'' (PStr [])) = Inr h" by blast
  from h have sh: "stored_hash idea = text_affinity h" by (simp add: stored_hash_def)
  from insert_or_ignore_raw_cases[OF ps, of clock db] show ?thesis
  proof
    assume "insert_or_ignore_raw clock ps db = Inr (db\<lparr> raw_seq := Suc (raw_seq db) \<rparr>, 0)"
    with Inr show ?thesis by (simp add: store_raw_ideas_sqlite_def)
  next
    assume "\<exists>row. insert_or_ignore_raw clock ps db =
            Inr (db\<lparr> raw_ideas := raw_ideas db @ [row], raw_seq := Suc (raw_seq db) \<rparr>, 1) \<and>
            r_hash row = text_affinity h"
    then obtain row where "insert_or_ignore_raw clock ps db =
            Inr (db\<lparr> raw_ideas := raw_ideas db @ [row], raw_seq := Suc (raw_seq db) \<rparr>, 1)"
      and "r_hash row = text_affinity h" by blast
    with Inr sh have "raw_ideas (fst (store_raw_ideas_sqlite json_dumps now_iso clock db [idea])) =
        raw_ideas db @ [row] \<and>
      snd (store_raw_ideas_sqlite json_dumps now_iso clock db [idea]) = 1 \<and>
      r_hash row = stored_hash idea"
      by (simp add: store_raw_ideas_sqlite_def)
    then show ?thesis by blast
  qed
qed

lemma store_raw_single_present:
  assumes "stored_hash idea \<noteq> SNull" and "stored_hash idea \<in> set (map r_hash (raw_ideas db))"
  shows "raw_ideas (fst (store_raw_ideas_sqlite json_dumps now_iso clock db [idea])) = raw_ideas db \<and>
         snd (store_raw_ideas_sqlite json_dumps now_iso clock db [idea]) = 0"
proof (cases "raw_insert_params json_dumps now_iso idea")
  case (Inl e)
  then show ?thesis by (simp add: store_raw_ideas_sqlite_def)
next
  case (Inr ps)
  from raw_params_shape[OF Inr] obtain t d u s ts h rc where
    ps: "ps = [t, d, u, s, ts, h, rc]"
    and h: "bind_param (get_default idea ''hash'' (PStr [])) = Inr h" by blast
  from h have sh: "stored_hash idea = text_affinity h" by (simp add: stored_hash_def)
  from insert_or_ignore_raw_present[OF ps, of db clock] assms sh
  have "insert_or_ignore_raw clock ps db = Inr (db\<lparr> raw_seq := Suc (raw_seq db) \<rparr>, 0)" by simp
  with Inr show ?thesis by (simp add: store_raw_ideas_sqlite_def)
qed

text \<open>
  Storing the same fingerprinted idea twice on SQLite: the second call finds the fingerprint
  and is ignored, so the table grows by at most one row and by exactly the sum of the two
  returned counts.
\<close>

lemma store_raw_sqlite_twice:
  assumes "stored_hash idea \<noteq> SNull"
  shows "length (raw_ideas (fst (store_raw_ideas_sqlite json_dumps iso2 clock2
            (fst (store_raw_ideas_sqlite json_dumps iso1 clock1 db [idea])) [idea])))
         \<le> length (raw_ideas db) + 1 \<and>
         length (raw_ideas (fst (store_raw_ideas_sqlite json_dumps iso2 clock2
            (fst (store_raw_ideas_sqlite json_dumps iso1 clock1 db [idea])) [idea])))
         = length (raw_ideas db) + snd (store_raw_ideas_sqlite json_dumps iso1 clock1 db [idea])
           + snd (store_raw_ideas_sqlite json_dumps iso2 clock2
               (fst (store_raw_ideas_sqlite json_dumps iso1 clock1 db [idea])) [idea])"
proof -
  let ?db1 = "fst (store_raw_ideas_sqlite json_dumps iso1 clock1 db [idea])"
  from store_raw_single_cases[of json_dumps iso1 clock1 db idea] show ?thesis
  proof
    assume a: "raw_ideas ?db1 = raw_ideas db \<and>
      snd (store_raw_ideas_sqlite json_dumps iso1 clock1 db [idea]) = 0"
    from store_raw_single_cases[of json_dumps iso2 clock2 ?db1 idea] a show ?thesis by auto
  next
    assume "\<exists>row. raw_ideas ?db1 = raw_ideas db @ [row] \<and>
      snd (store_raw_ideas_sqlite json_dumps iso1 clock1 db [idea]) = 1 \<and>
      r_hash row = stored_hash idea"
    then obtain row where a: "raw_ideas ?db1 = raw_ideas db @ [row]"
      and n: "snd (store_raw_ideas_sqlite json_dumps iso1 clock1 db [idea]) = 1"
      and r: "r_hash row = stored_hash idea" by blast
    from a r have "stored_hash idea \<in> set (map r_hash (raw_ideas ?db1))" by simp
    from store_raw_single_present[OF assms this, of json_dumps iso2 clock2] a n
    show ?thesis by simp
  qed
qed

text \<open>
  Claim C5.  Storing one normalized idea twice with \<open>store_raw\<close>: on SQLite the first call
  returns 1, the second returns 0 and the table holds one row; on Supabase, with the hosted
  table as the code documents it, both calls return 1 and the table holds two rows.  The
  Supabase path sends a plain insert and leaves the fingerprint unchecked.
\<close>

theorem store_raw_twice_on_both_backends:
  "snd (store_raw_ideas_sqlite ex_value_dumps ''t1'' 100 empty_db [raw_idea]) = 1 \<and>
   snd (store_raw_ideas_sqlite ex_value_dumps ''t2'' 200
          (fst (store_raw_ideas_sqlite ex_value_dumps ''t1'' 100 empty_db [raw_idea])) [raw_idea]) = 0 \<and>
   length (raw_ideas (fst (store_raw_ideas_sqlite ex_value_dumps ''t2'' 200
          (fst (store_raw_ideas_sqlite ex_value_dumps ''t1'' 100 empty_db [raw_idea])) [raw_idea]))) = 1 \<and>
   snd (store_raw_ideas_supabase ex_loads (hosted_insert 100) [] [raw_idea]) = 1 \<and>
   snd (store_raw_ideas_supabase ex_loads (hosted_insert 200)
          (fst (store_raw_ideas_supabase ex_loads (hosted_insert 100) [] [raw_idea])) [raw_idea]) = 1 \<and>
   length (fst (store_raw_ideas_supabase ex_loads (hosted_insert 200)
          (fst (store_raw_ideas_supabase ex_loads (hosted_insert 100) [] [raw_idea])) [raw_idea])) = 2"
proof -
  have p: "raw_insert_params ex_value_dumps iso raw_idea =
      Inr [SText ''a'', SText ''d'', SText ''u'', SText ''Reddit'', SText ''t0'', SText ''h1'', SText ''{}'']" for iso
    by (simp add: raw_insert_params_def raw_idea_def get_default_def)
  let ?db1 = "\<lparr> raw_ideas = [\<lparr> r_id = 1, r_title = SText ''a'', r_description = SText ''d'',
            r_url = SText ''u'', r_source = SText ''Reddit'', r_timestamp = SText ''t0'',
            r_hash = SText ''h1'', r_raw_content = SText ''{}'', r_created_at = 100 \<rparr>],
          raw_seq = 1, analyzed_ideas = [], analyzed_seq = 0 \<rparr>"
  have s1: "store_raw_ideas_sqlite ex_value_dumps ''t1'' 100 empty_db [raw_idea] = (?db1, 1)"
    by (simp add: store_raw_ideas_sqlite_def p insert_or_ignore_raw_def empty_db_def)
  have s2: "store_raw_ideas_sqlite ex_value_dumps ''t2'' 200 ?db1 [raw_idea] =
      (?db1\<lparr> raw_seq := 2 \<rparr>, 0)"
    by (simp add: store_raw_ideas_sqlite_def p insert_or_ignore_raw_def)
  have d: "decode_raw_content ex_loads raw_idea = Inr raw_idea"
    by (simp add: decode_raw_content_def raw_idea_def ex_loads_def)
  let ?h1 = "[\<lparr> h_id = 1, h_fields = raw_idea, h_created_at = 100 \<rparr>]"
  have h1: "store_raw_ideas_supabase ex_loads (hosted_insert 100) [] [raw_idea] = (?h1, 1)"
    by (simp add: store_raw_ideas_supabase_def d hosted_insert_def)
  have h2: "store_raw_ideas_supabase ex_loads (hosted_insert 200) ?h1 [raw_idea] =
      (?h1 @ [\<lparr> h_id = 2, h_fields = raw_idea, h_created_at = 200 \<rparr>], 1)"
    by (simp add: store_raw_ideas_supabase_def d hosted_insert_def)
  have a: "fst (store_raw_ideas_sqlite ex_value_dumps ''t1'' 100 empty_db [raw_idea]) = ?db1"
    by (simp only: s1 fst_conv)
  have b: "fst (store_raw_ideas_supabase ex_loads (hosted_insert 100) [] [raw_idea]) = ?h1"
    by (simp only: h1 fst_conv)
  show ?thesis
    by (simp only: a b) (simp only: s1 s2 h1 h2, simp)
qed

end
